theory Spec2Isabelle
  imports Complex_Main "HOL-Library.Multiset"
begin

section \<open>JavaScript values used by the application\<close>

text \<open>
  Strings are modelled as \<^typ>\<open>string\<close>. \<open>String.prototype.trim\<close> and
  \<open>String.prototype.toUpperCase\<close> follow the Unicode tables of the runtime (white space
  beyond ASCII, case pairs of every script); the functions that call them take the two as
  a record of functions, so that what is proved of them holds for the runtime's own.
  \<open>toLowerCase\<close> is only applied before a comparison with the ASCII constants of MIME
  types and file extensions and is written out for the ASCII letters.
  JavaScript numbers are \<^typ>\<open>real\<close> where the code divides or subtracts fractions,
  \<^typ>\<open>int\<close> for millisecond timestamps and \<^typ>\<open>nat\<close> for counts and lengths.
\<close>

record stringOps =
  op_trim :: "string \<Rightarrow> string"
  op_toUpperCase :: "string \<Rightarrow> string"

definition lowerLetters :: string where
  "lowerLetters = ''abcdefghijklmnopqrstuvwxyz''"

definition upperLetters :: string where
  "upperLetters = ''ABCDEFGHIJKLMNOPQRSTUVWXYZ''"

definition asciiToUpperCase :: "string \<Rightarrow> string" where
  "asciiToUpperCase s =
     map (\<lambda>c. case map_of (zip lowerLetters upperLetters) c of Some u \<Rightarrow> u | None \<Rightarrow> c) s"

definition toLowerCase :: "string \<Rightarrow> string" where
  "toLowerCase s =
     map (\<lambda>c. case map_of (zip upperLetters lowerLetters) c of Some l \<Rightarrow> l | None \<Rightarrow> c) s"

text \<open>Tab, line feed, vertical tab, form feed, carriage return and space.\<close>

definition isWhiteSpace :: "char \<Rightarrow> bool" where
  "isWhiteSpace c = (c \<in> set [CHR 0x09, CHR 0x0A, CHR 0x0B, CHR 0x0C, CHR 0x0D, CHR '' ''])"

definition asciiTrim :: "string \<Rightarrow> string" where
  "asciiTrim s = rev (dropWhile isWhiteSpace (rev (dropWhile isWhiteSpace s)))"

text \<open>
  The two operations as they act on ASCII strings, used where a theorem is instantiated
  on ASCII data.
\<close>

definition asciiOps :: stringOps where
  "asciiOps = \<lparr>op_trim = asciiTrim, op_toUpperCase = asciiToUpperCase\<rparr>"

definition endsWith :: "string \<Rightarrow> string \<Rightarrow> bool" where
  "endsWith s suf = (take (length suf) (rev s) = rev suf)"

text \<open>\<open>Math.round\<close>: the nearest integer, a tie going up.\<close>

definition js_round :: "real \<Rightarrow> int" where
  "js_round x = \<lfloor>x + 1 / 2\<rfloor>"

text \<open>
  \<open>Array.prototype.sort\<close> with a comparator is stable; for the consistent comparators
  the application passes, the result is the one a stable insertion sort produces.
\<close>

fun insortBy :: "('a \<Rightarrow> 'a \<Rightarrow> int) \<Rightarrow> 'a \<Rightarrow> 'a list \<Rightarrow> 'a list" where
  "insortBy cmp x [] = [x]"
| "insortBy cmp x (y # ys) = (if cmp x y \<le> 0 then x # y # ys else y # insortBy cmp x ys)"

definition js_sort :: "('a \<Rightarrow> 'a \<Rightarrow> int) \<Rightarrow> 'a list \<Rightarrow> 'a list" where
  "js_sort cmp xs = foldr (insortBy cmp) xs []"

section \<open>Stored documents: \<open>src/lib/storage.ts\<close>\<close>

text \<open>
  The interfaces of the source become records; every field carries a prefix naming its
  record, since several interfaces share field names (\<open>id\<close>, \<open>box\<close>, \<open>confidence\<close>).
  An optional field (\<open>f?: T\<close>) is an \<^typ>\<open>'a option\<close>.
\<close>

record Box =
  box_x :: real
  box_y :: real
  box_width :: real
  box_height :: real

record FaceTag =
  ft_memberId :: string
  ft_memberName :: string
  ft_box :: Box
  ft_confidence :: "real option"

record DetectedFaceData =
  dfd_id :: string
  dfd_thumbnail :: string
  dfd_box :: Box
  dfd_descriptorString :: string
  dfd_assignedMemberId :: "string option"
  dfd_assignedMemberName :: "string option"
  dfd_suggestedMemberId :: "string option"
  dfd_suggestedMemberName :: "string option"
  dfd_confidence :: "real option"

record StoredPhoto =
  sp_id :: string
  sp_countryIso :: string
  sp_url :: string
  sp_name :: string
  sp_caption :: string
  sp_faceTags :: "FaceTag list"
  sp_detectedFaces :: "DetectedFaceData list option"
  sp_createdAt :: int

section \<open>Trips: \<open>src/types/trips.ts\<close>\<close>

record TripData =
  td_countryName :: string
  td_iso2 :: string
  td_continent :: string
  td_year :: string
  td_cities :: "string list"
  td_notes :: string
  td_photos :: "string list"
  td_isHome :: "bool option"

record ProfileData =
  title :: string
  subtitle :: string

record TripsJson =
  profile :: ProfileData
  homeCountry :: "string option"
  visited :: "TripData list"

definition normalizeIso2 :: "stringOps \<Rightarrow> string \<Rightarrow> string" where
  "normalizeIso2 ops v = op_toUpperCase ops (op_trim ops v)"

definition TOTAL_COUNTRIES_IN_WORLD :: nat where
  "TOTAL_COUNTRIES_IN_WORLD = 195"

record CountryInfo =
  ci_name :: string
  ci_iso2 :: string
  ci_continent :: string

definition country :: "string \<Rightarrow> string \<Rightarrow> string \<Rightarrow> CountryInfo" where
  "country n i c = \<lparr>ci_name = n, ci_iso2 = i, ci_continent = c\<rparr>"

definition ALL_COUNTRIES :: "CountryInfo list" where
  "ALL_COUNTRIES =
    [country ''Afghanistan'' ''AF'' ''Asia'',
     country ''Albania'' ''AL'' ''Europe'',
     country ''Algeria'' ''DZ'' ''Africa'',
     country ''Andorra'' ''AD'' ''Europe'',
     country ''Angola'' ''AO'' ''Africa'',
     country ''Argentina'' ''AR'' ''South America'',
     country ''Armenia'' ''AM'' ''Asia'',
     country ''Australia'' ''AU'' ''Oceania'',
     country ''Austria'' ''AT'' ''Europe'',
     country ''Azerbaijan'' ''AZ'' ''Asia'',
     country ''Belgium'' ''BE'' ''Europe'',
     country ''Brazil'' ''BR'' ''South America'',
     country ''Canada'' ''CA'' ''North America'',
     country ''China'' ''CN'' ''Asia'',
     country ''Colombia'' ''CO'' ''South America'',
     country ''Czechia'' ''CZ'' ''Europe'',
     country ''Denmark'' ''DK'' ''Europe'',
     country ''Ecuador'' ''EC'' ''South America'',
     country ''Estonia'' ''EE'' ''Europe'',
     country ''Ethiopia'' ''ET'' ''Africa'',
     country ''Finland'' ''FI'' ''Europe'',
     country ''France'' ''FR'' ''Europe'',
     country ''Georgia'' ''GE'' ''Asia'',
     country ''Germany'' ''DE'' ''Europe'',
     country ''Hong Kong'' ''HK'' ''Asia'',
     country ''Hungary'' ''HU'' ''Europe'',
     country ''India'' ''IN'' ''Asia'',
     country ''Indonesia'' ''ID'' ''Asia'',
     country ''Israel'' ''IL'' ''Asia'',
     country ''Italy'' ''IT'' ''Europe'',
     country ''Jordan'' ''JO'' ''Asia'',
     country ''Kazakhstan'' ''KZ'' ''Asia'',
     country ''Kyrgyzstan'' ''KG'' ''Asia'',
     country ''Malaysia'' ''MY'' ''Asia'',
     country ''Mexico'' ''MX'' ''North America'',
     country ''Nigeria'' ''NG'' ''Africa'',
     country ''Norway'' ''NO'' ''Europe'',
     country ''Paraguay'' ''PY'' ''South America'',
     country ''Poland'' ''PL'' ''Europe'',
     country ''Portugal'' ''PT'' ''Europe'',
     country ''Romania'' ''RO'' ''Europe'',
     country ''Russia'' ''RU'' ''Europe'',
     country ''Singapore'' ''SG'' ''Asia'',
     country ''South Africa'' ''ZA'' ''Africa'',
     country ''Spain'' ''ES'' ''Europe'',
     country ''Sweden'' ''SE'' ''Europe'',
     country ''Thailand'' ''TH'' ''Asia'',
     country ''Turkey'' ''TR'' ''Europe'',
     country ''Turkmenistan'' ''TM'' ''Asia'',
     country ''Ukraine'' ''UA'' ''Europe'',
     country ''United Arab Emirates'' ''AE'' ''Asia'',
     country ''United Kingdom'' ''GB'' ''Europe'',
     country ''United States'' ''US'' ''North America'',
     country ''Uruguay'' ''UY'' ''South America'',
     country ''Uzbekistan'' ''UZ'' ''Asia'']"

subsection \<open>\<open>usePhotoPreviews\<close>: \<open>rebuildFromPhotos\<close> and \<open>registerPhoto\<close>\<close>

record PreviewEntry =
  pe_url :: string
  pe_createdAt :: int
  pe_count :: nat

text \<open>
  The state \<open>byIso\<close> is a \<open>Record<string, PreviewEntry>\<close>, a map from normalized country
  code to entry. \<open>rebuildStep\<close> is the body of the \<open>for\<close> loop of \<open>rebuildFromPhotos\<close>;
  both functions return the state they hand to \<open>setByIso\<close>.
\<close>

definition rebuildStep ::
  "stringOps \<Rightarrow> (string \<rightharpoonup> PreviewEntry) \<Rightarrow> StoredPhoto \<Rightarrow> (string \<rightharpoonup> PreviewEntry)" where
  "rebuildStep ops next p =
     (let iso = normalizeIso2 ops (sp_countryIso p) in
      if iso = [] then next
      else (case next iso of
              None \<Rightarrow> next(iso \<mapsto> \<lparr>pe_url = sp_url p, pe_createdAt = sp_createdAt p, pe_count = 1\<rparr>)
            | Some current \<Rightarrow>
                (let entry = current\<lparr>pe_count := pe_count current + 1\<rparr> in
                 if sp_createdAt p > pe_createdAt current
                 then next(iso \<mapsto> entry\<lparr>pe_url := sp_url p, pe_createdAt := sp_createdAt p\<rparr>)
                 else next(iso \<mapsto> entry))))"

definition rebuildFromPhotos :: "stringOps \<Rightarrow> StoredPhoto list \<Rightarrow> (string \<rightharpoonup> PreviewEntry)" where
  "rebuildFromPhotos ops photos = foldl (rebuildStep ops) Map.empty photos"

definition registerPhoto ::
  "stringOps \<Rightarrow> StoredPhoto \<Rightarrow> (string \<rightharpoonup> PreviewEntry) \<Rightarrow> (string \<rightharpoonup> PreviewEntry)" where
  "registerPhoto ops photo prev =
     (let iso = normalizeIso2 ops (sp_countryIso photo) in
      if iso = [] then prev
      else (case prev iso of
              None \<Rightarrow> prev(iso \<mapsto> \<lparr>pe_url = sp_url photo, pe_createdAt = sp_createdAt photo, pe_count = 1\<rparr>)
            | Some current \<Rightarrow>
                (let nextEntry = \<lparr>pe_url = pe_url current, pe_createdAt = pe_createdAt current,
                                  pe_count = pe_count current + 1\<rparr> in
                 if sp_createdAt photo \<ge> pe_createdAt current
                 then prev(iso \<mapsto> nextEntry\<lparr>pe_url := sp_url photo, pe_createdAt := sp_createdAt photo\<rparr>)
                 else prev(iso \<mapsto> nextEntry))))"

definition photoPreviews :: "(string \<rightharpoonup> PreviewEntry) \<Rightarrow> (string \<rightharpoonup> string)" where
  "photoPreviews byIso = (\<lambda>iso. map_option pe_url (byIso iso))"

definition photoCounts :: "(string \<rightharpoonup> PreviewEntry) \<Rightarrow> (string \<rightharpoonup> nat)" where
  "photoCounts byIso = (\<lambda>iso. map_option pe_count (byIso iso))"

subsection \<open>\<open>getTravelStats\<close>\<close>

record TravelStats =
  countriesVisited :: nat
  worldPercentage :: int
  mostVisitedContinent :: string
  continentCounts :: "(string \<times> nat) list"

text \<open>
  \<open>continentCounts[c] = (continentCounts[c] || 0) + 1\<close> on a fresh object: \<open>bumpCount\<close>
  keeps the properties in the order they were created. The continent names are taken not
  to be names of members that every object inherits (\<open>constructor\<close>, \<open>toString\<close>, ...).
\<close>

fun bumpCount :: "string \<Rightarrow> (string \<times> nat) list \<Rightarrow> (string \<times> nat) list" where
  "bumpCount c [] = [(c, 1)]"
| "bumpCount c ((k, n) # rest) = (if k = c then (k, n + 1) # rest else (k, n) # bumpCount c rest)"

text \<open>
  The order in which an object lists its own properties: first the keys that are array
  indices (canonical decimal strings up to 4294967294) in ascending numeric order, then
  the other keys in the order of their creation.
\<close>

definition decimalValue :: "string \<Rightarrow> nat" where
  "decimalValue s =
     foldl (\<lambda>acc c. 10 * acc + (case map_of (zip ''0123456789'' [0, 1, 2, 3, 4, 5, 6, 7, 8, 9]) c of Some v \<Rightarrow> v | None \<Rightarrow> 0))
           0 s"

definition arrayIndex :: "string \<Rightarrow> nat option" where
  "arrayIndex s =
     (case s of
        [] \<Rightarrow> None
      | c # cs \<Rightarrow>
          if list_all (\<lambda>x. x \<in> set ''0123456789'') s \<and> (c \<noteq> CHR ''0'' \<or> cs = [])
             \<and> decimalValue s \<le> 4294967294
          then Some (decimalValue s) else None)"

definition objectEntries :: "(string \<times> 'a) list \<Rightarrow> (string \<times> 'a) list" where
  "objectEntries props =
     sort_key (\<lambda>e. case arrayIndex (fst e) of Some i \<Rightarrow> i | None \<Rightarrow> 0)
              (filter (\<lambda>e. arrayIndex (fst e) \<noteq> None) props)
     @ filter (\<lambda>e. arrayIndex (fst e) = None) props"

definition getTravelStats :: "TripsJson option \<Rightarrow> TravelStats" where
  "getTravelStats data =
     (let visitedTrips = (case data of None \<Rightarrow> [] | Some d \<Rightarrow> visited d);
          counts = objectEntries (foldl (\<lambda>acc trip. bumpCount (td_continent trip) acc) [] visitedTrips);
          top = (case js_sort (\<lambda>a b. int (snd b) - int (snd a)) counts of
                   [] \<Rightarrow> ''N/A''
                 | e # _ \<Rightarrow> (if fst e = [] then ''N/A'' else fst e))
      in \<lparr>countriesVisited = length visitedTrips,
          worldPercentage =
            js_round (real (length visitedTrips) / real TOTAL_COUNTRIES_IN_WORLD * 100),
          mostVisitedContinent = top,
          continentCounts = counts\<rparr>)"

subsection \<open>\<open>addCountry\<close>\<close>

definition newTrip :: "CountryInfo \<Rightarrow> TripData" where
  "newTrip info =
     \<lparr>td_countryName = ci_name info, td_iso2 = ci_iso2 info, td_continent = ci_continent info,
      td_year = [], td_cities = [], td_notes = [], td_photos = [], td_isHome = None\<rparr>"

text \<open>
  The hook keeps \<open>data\<close> in React state; \<open>addCountry\<close> either returns without touching
  it or calls \<open>setData\<close>. The model returns the state after the call. The collation
  \<open>localeCompare\<close> belongs to the runtime's locale and is a parameter, as are the string
  operations behind \<open>normalizeIso2\<close>.
\<close>

definition addCountry ::
  "stringOps \<Rightarrow> (string \<Rightarrow> string \<Rightarrow> int) \<Rightarrow> TripsJson option \<Rightarrow> string \<Rightarrow> TripsJson option" where
  "addCountry ops localeCompare data code =
     (case data of
        None \<Rightarrow> None
      | Some d \<Rightarrow>
          (let n = normalizeIso2 ops code in
           if n = [] then Some d
           else if list_ex (\<lambda>t. normalizeIso2 ops (td_iso2 t) = n) (visited d) then Some d
           else (case find (\<lambda>c. ci_iso2 c = n) ALL_COUNTRIES of
                   None \<Rightarrow> Some d
                 | Some info \<Rightarrow>
                     Some (d\<lparr>visited :=
                       js_sort (\<lambda>a b. localeCompare (td_countryName a) (td_countryName b))
                         (visited d @ [newTrip info])\<rparr>))))"

section \<open>Writing to Firestore: \<open>sanitizeForFirestore\<close>\<close>

text \<open>
  \<open>sanitizeForFirestore\<close> is generic and inspects its argument at run time, so it is
  modelled on untyped JavaScript data: \<open>undefined\<close>, \<open>null\<close>, booleans, numbers, strings,
  arrays, and plain objects as the list of their own enumerable entries (the keys of one
  object are distinct). The data is a finite tree.
\<close>

datatype jsval =
    JUndefined
  | JNull
  | JBool bool
  | JNum real
  | JStr string
  | JArr "jsval list"
  | JObj "(string \<times> jsval) list"

fun sanitizeForFirestore :: "jsval \<Rightarrow> jsval" where
  "sanitizeForFirestore (JArr vs) =
     JArr (filter (\<lambda>v. v \<noteq> JUndefined) (map sanitizeForFirestore vs))"
| "sanitizeForFirestore (JObj es) =
     JObj (filter (\<lambda>e. snd e \<noteq> JUndefined) (map (\<lambda>e. (fst e, sanitizeForFirestore (snd e))) es))"
| "sanitizeForFirestore v = v"

text \<open>The value is \<open>undefined\<close>, or \<open>undefined\<close> occurs somewhere inside it.\<close>

fun hasUndefined :: "jsval \<Rightarrow> bool" where
  "hasUndefined JUndefined = True"
| "hasUndefined (JArr vs) = list_ex hasUndefined vs"
| "hasUndefined (JObj es) = list_ex (\<lambda>e. hasUndefined (snd e)) es"
| "hasUndefined v = False"

text \<open>
  What each write path hands to \<open>setDoc\<close> or \<open>updateDoc\<close>; the arguments are the run-time
  values of the parameters.
\<close>

definition saveTripsData_payload :: "jsval \<Rightarrow> jsval" where
  "saveTripsData_payload data = sanitizeForFirestore data"

definition savePhoto_payload ::
  "jsval \<Rightarrow> jsval \<Rightarrow> jsval \<Rightarrow> jsval \<Rightarrow> jsval \<Rightarrow> jsval \<Rightarrow> jsval \<Rightarrow> jsval \<Rightarrow> jsval" where
  "savePhoto_payload ident countryIso url name caption faceTags detectedFaces createdAt =
     sanitizeForFirestore
       (JObj [(''id'', ident), (''countryIso'', countryIso), (''url'', url), (''name'', name),
              (''caption'', caption), (''faceTags'', faceTags),
              (''detectedFaces'', detectedFaces), (''createdAt'', createdAt)])"

definition updatePhotoCaption_payload :: "jsval \<Rightarrow> jsval" where
  "updatePhotoCaption_payload caption = sanitizeForFirestore (JObj [(''caption'', caption)])"

definition updatePhotoFaceTags_payload :: "jsval \<Rightarrow> jsval" where
  "updatePhotoFaceTags_payload faceTags = sanitizeForFirestore (JObj [(''faceTags'', faceTags)])"

definition updatePhotoDetectedFaces_payload :: "jsval \<Rightarrow> jsval" where
  "updatePhotoDetectedFaces_payload detectedFaces =
     sanitizeForFirestore (JObj [(''detectedFaces'', detectedFaces)])"

section \<open>The cloud backend and the storage functions\<close>

text \<open>
  The documents of the collection \<open>familyMembers\<close> have the interface \<open>FamilyMember\<close>
  of \<open>src/lib/faceRecognition.ts\<close>; a missing \<open>descriptorStrings\<close> is the empty list.
\<close>

record FamilyMember =
  fm_id :: string
  fm_name :: string
  fm_descriptorStrings :: "string list"
  fm_photoUrls :: "string list"
  fm_createdAt :: int
  fm_descriptor :: "real list option"
  fm_descriptors :: "real list list option"
  fm_photoUrl :: "string option"

text \<open>
  The document store and the object store are state outside the program. A collection is
  the list of its documents (document id and data) in the order a read of the collection
  yields them; the object store is the list of the paths that hold a blob.
\<close>

record backend =
  tripsConfig :: "TripsJson option"
  photoDocs :: "(string \<times> StoredPhoto) list"
  familyDocs :: "(string \<times> FamilyMember) list"
  blobs :: "string list"

datatype error = RemoteError string | JsonSyntaxError

text \<open>
  Every call of the Firebase SDK is a promise that resolves or rejects. Whether it rejects
  is decided outside the program, so each call takes the rejection, if any, as an
  argument: \<open>None\<close> lets the call go through, \<open>Some e\<close> makes it reject with \<open>e\<close> and
  leave the backend as it was. Deleting an object that is not there and updating a
  document that is not there reject by themselves.
\<close>

definition getDoc_tripsConfig :: "error option \<Rightarrow> backend \<Rightarrow> error + TripsJson option" where
  "getDoc_tripsConfig fault b = (case fault of Some e \<Rightarrow> Inl e | None \<Rightarrow> Inr (tripsConfig b))"

definition getDocs_photos :: "error option \<Rightarrow> backend \<Rightarrow> error + StoredPhoto list" where
  "getDocs_photos fault b = (case fault of Some e \<Rightarrow> Inl e | None \<Rightarrow> Inr (map snd (photoDocs b)))"

definition getDocs_photosWhereCountryIso ::
  "error option \<Rightarrow> string \<Rightarrow> backend \<Rightarrow> error + StoredPhoto list" where
  "getDocs_photosWhereCountryIso fault countryIso b =
     (case fault of
        Some e \<Rightarrow> Inl e
      | None \<Rightarrow> Inr (filter (\<lambda>p. sp_countryIso p = countryIso) (map snd (photoDocs b))))"

definition getDocs_familyMembers :: "error option \<Rightarrow> backend \<Rightarrow> error + FamilyMember list" where
  "getDocs_familyMembers fault b =
     (case fault of Some e \<Rightarrow> Inl e | None \<Rightarrow> Inr (map snd (familyDocs b)))"

definition deleteObject :: "error option \<Rightarrow> string \<Rightarrow> backend \<Rightarrow> error + backend" where
  "deleteObject fault path b =
     (case fault of
        Some e \<Rightarrow> Inl e
      | None \<Rightarrow>
          if path \<in> set (blobs b) then Inr (b\<lparr>blobs := filter (\<lambda>q. q \<noteq> path) (blobs b)\<rparr>)
          else Inl (RemoteError ''storage/object-not-found''))"

definition deleteDoc_photo :: "error option \<Rightarrow> string \<Rightarrow> backend \<Rightarrow> error + backend" where
  "deleteDoc_photo fault photoId b =
     (case fault of
        Some e \<Rightarrow> Inl e
      | None \<Rightarrow> Inr (b\<lparr>photoDocs := filter (\<lambda>d. fst d \<noteq> photoId) (photoDocs b)\<rparr>))"

definition updateDoc_photo ::
  "error option \<Rightarrow> string \<Rightarrow> (StoredPhoto \<Rightarrow> StoredPhoto) \<Rightarrow> backend \<Rightarrow> error + backend" where
  "updateDoc_photo fault photoId upd b =
     (case fault of
        Some e \<Rightarrow> Inl e
      | None \<Rightarrow>
          if photoId \<in> fst ` set (photoDocs b)
          then Inr (b\<lparr>photoDocs :=
                 map (\<lambda>d. if fst d = photoId then (fst d, upd (snd d)) else d) (photoDocs b)\<rparr>)
          else Inl (RemoteError ''not-found''))"

subsection \<open>Reads\<close>

definition getTripsData :: "error option \<Rightarrow> backend \<Rightarrow> TripsJson option" where
  "getTripsData fault b =
     (case getDoc_tripsConfig fault b of
        Inl e \<Rightarrow> None
      | Inr docSnap \<Rightarrow> (case docSnap of Some d \<Rightarrow> Some d | None \<Rightarrow> None))"

definition getPhotosForCountry :: "error option \<Rightarrow> string \<Rightarrow> backend \<Rightarrow> StoredPhoto list" where
  "getPhotosForCountry fault countryIso b =
     (case getDocs_photosWhereCountryIso fault countryIso b of
        Inl e \<Rightarrow> []
      | Inr ps \<Rightarrow> js_sort (\<lambda>p q. sp_createdAt p - sp_createdAt q) ps)"

definition getAllPhotos :: "error option \<Rightarrow> backend \<Rightarrow> StoredPhoto list" where
  "getAllPhotos fault b = (case getDocs_photos fault b of Inl e \<Rightarrow> [] | Inr ps \<Rightarrow> ps)"

definition getFamilyMembers ::
  "(string \<Rightarrow> string \<Rightarrow> int) \<Rightarrow> error option \<Rightarrow> backend \<Rightarrow> FamilyMember list" where
  "getFamilyMembers localeCompare fault b =
     (case getDocs_familyMembers fault b of
        Inl e \<Rightarrow> []
      | Inr members \<Rightarrow> js_sort (\<lambda>a b. localeCompare (fm_name a) (fm_name b)) members)"

subsection \<open>Writes\<close>

text \<open>
  A function that can throw returns \<open>Inl\<close> the error; where the backend may have changed
  before the throw, the backend after the call is returned beside the outcome. The
  \<open>catch\<close> blocks of these functions log and rethrow. On the typed records the sanitizer
  of the previous section has nothing to drop: an optional field that is \<open>undefined\<close> and
  one that is missing are both \<open>None\<close>.
\<close>

definition updatePhotoFaceTags ::
  "error option \<Rightarrow> string \<Rightarrow> FaceTag list \<Rightarrow> backend \<Rightarrow> error + backend" where
  "updatePhotoFaceTags fault photoId faceTags b =
     (case updateDoc_photo fault photoId (\<lambda>p. p\<lparr>sp_faceTags := faceTags\<rparr>) b of
        Inl e \<Rightarrow> Inl e
      | Inr b' \<Rightarrow> Inr b')"

definition updatePhotoDetectedFaces ::
  "error option \<Rightarrow> string \<Rightarrow> DetectedFaceData list \<Rightarrow> backend \<Rightarrow> error + backend" where
  "updatePhotoDetectedFaces fault photoId detectedFaces b =
     (case updateDoc_photo fault photoId (\<lambda>p. p\<lparr>sp_detectedFaces := Some detectedFaces\<rparr>) b of
        Inl e \<Rightarrow> Inl e
      | Inr b' \<Rightarrow> Inr b')"

definition deletePhoto ::
  "error option \<Rightarrow> error option \<Rightarrow> string \<Rightarrow> backend \<Rightarrow> (error + unit) \<times> backend" where
  "deletePhoto faultStorage faultFirestore photoId b =
     (case deleteObject faultStorage (''photos/'' @ photoId) b of
        Inl e \<Rightarrow> (Inl e, b)
      | Inr b1 \<Rightarrow>
          (case deleteDoc_photo faultFirestore photoId b1 of
             Inl e \<Rightarrow> (Inl e, b1)
           | Inr b2 \<Rightarrow> (Inr (), b2)))"

section \<open>Face matching: \<open>src/lib/faceRecognition.ts\<close>\<close>

text \<open>
  A descriptor (\<open>Float32Array\<close>) is the list of its components; all descriptors have
  the length the embedding model fixes. \<open>JSON.parse\<close> followed
  by \<open>new Float32Array\<close> is the runtime's; it enters as the parameter \<open>parse\<close>, which
  yields \<open>None\<close> where \<open>JSON.parse\<close> throws.
\<close>

record DetectedFace =
  df_descriptor :: "real list"
  df_box :: Box
  df_matchedMember :: "FamilyMember option"
  df_confidence :: "real option"

definition MATCH_THRESHOLD :: real where
  "MATCH_THRESHOLD = 55 / 100"

definition getMemberDescriptors ::
  "(string \<Rightarrow> real list option) \<Rightarrow> FamilyMember \<Rightarrow> error + real list list" where
  "getMemberDescriptors parse member =
     (if fm_descriptorStrings member \<noteq> []
      then (case those (map parse (fm_descriptorStrings member)) of
              None \<Rightarrow> Inl JsonSyntaxError
            | Some ds \<Rightarrow> Inr ds)
      else (case fm_descriptors member of
              Some (d # ds) \<Rightarrow> Inr (d # ds)
            | _ \<Rightarrow> (case fm_descriptor member of Some d \<Rightarrow> Inr [d] | None \<Rightarrow> Inr [])))"

text \<open>The body of the inner loop of \<open>getTrainingDescriptorsFromTaggedPhotos\<close>.\<close>

definition trainingOfFace ::
  "(string \<Rightarrow> real list option) \<Rightarrow> DetectedFaceData \<Rightarrow> (string \<times> real list) list" where
  "trainingOfFace parse f =
     (case dfd_assignedMemberId f of
        None \<Rightarrow> []
      | Some memberId \<Rightarrow>
          if memberId = [] \<or> dfd_descriptorString f = [] then []
          else (case parse (dfd_descriptorString f) of None \<Rightarrow> [] | Some d \<Rightarrow> [(memberId, d)]))"

definition getTrainingDescriptorsFromTaggedPhotos ::
  "(string \<Rightarrow> real list option) \<Rightarrow> error option \<Rightarrow> backend \<Rightarrow> (string \<times> real list) list" where
  "getTrainingDescriptorsFromTaggedPhotos parse fault b =
     concat (map (\<lambda>p. concat (map (trainingOfFace parse)
                                  (case sp_detectedFaces p of None \<Rightarrow> [] | Some faces \<Rightarrow> faces)))
                 (getAllPhotos fault b))"

text \<open>The \<open>Map\<close> filled from the training list, one descriptor pushed at a time.\<close>

definition groupByMember :: "(string \<times> real list) list \<Rightarrow> (string \<rightharpoonup> real list list)" where
  "groupByMember training =
     foldl (\<lambda>byMember t.
              byMember(fst t \<mapsto> (case byMember (fst t) of None \<Rightarrow> [] | Some ds \<Rightarrow> ds) @ [snd t]))
           Map.empty training"

text \<open>
  \<open>labeledDescriptors\<close>: one labeled set per member, the fallback being computed for
  every member (so a stored string that does not parse makes the whole call throw), then
  the sets without descriptors filtered out.
\<close>

fun labelMembers ::
  "(string \<Rightarrow> real list option) \<Rightarrow> (string \<rightharpoonup> real list list) \<Rightarrow> FamilyMember list
     \<Rightarrow> error + (string \<times> real list list) list" where
  "labelMembers parse byMember [] = Inr []"
| "labelMembers parse byMember (member # rest) =
     (let fromPhotos = (case byMember (fm_id member) of None \<Rightarrow> [] | Some ds \<Rightarrow> ds) in
      case getMemberDescriptors parse member of
        Inl e \<Rightarrow> Inl e
      | Inr fallback \<Rightarrow>
          (let combined = (if fromPhotos \<noteq> [] then fromPhotos else fallback) in
           case labelMembers parse byMember rest of
             Inl e \<Rightarrow> Inl e
           | Inr lds \<Rightarrow> Inr ((fm_id member, combined) # lds)))"

definition labeledDescriptors ::
  "(string \<Rightarrow> real list option) \<Rightarrow> FamilyMember list \<Rightarrow> (string \<times> real list) list
     \<Rightarrow> error + (string \<times> real list list) list" where
  "labeledDescriptors parse familyMembers training =
     (case labelMembers parse (groupByMember training) familyMembers of
        Inl e \<Rightarrow> Inl e
      | Inr lds \<Rightarrow> Inr (filter (\<lambda>ld. snd ld \<noteq> []) lds))"

subsection \<open>The reference sets, as the specification words them\<close>

text \<open>
  For one member, in the words of the specification and without the functions above.
  The descriptors confirmed from tagged photos: of every stored photo, of every detected
  face that is assigned to the member's id, the descriptor its string parses to.
\<close>

definition spec_taggedDescriptors ::
  "(string \<Rightarrow> real list option) \<Rightarrow> StoredPhoto list \<Rightarrow> FamilyMember \<Rightarrow> real list list" where
  "spec_taggedDescriptors parse photos member =
     concat (map (\<lambda>p. concat (map (\<lambda>f. if dfd_assignedMemberId f = Some (fm_id member)
                                         then (case parse (dfd_descriptorString f) of
                                                 Some d \<Rightarrow> [d] | None \<Rightarrow> [])
                                         else [])
                                    (case sp_detectedFaces p of None \<Rightarrow> [] | Some faces \<Rightarrow> faces)))
                 photos)"

text \<open>
  The originally enrolled descriptors: what the strings of \<open>descriptorStrings\<close> parse to
  when there are any, else the list \<open>descriptors\<close> when it has elements, else the single
  \<open>descriptor\<close>, else nothing.
\<close>

definition spec_ownDescriptors :: "(string \<Rightarrow> real list option) \<Rightarrow> FamilyMember \<Rightarrow> real list list" where
  "spec_ownDescriptors parse member =
     (if fm_descriptorStrings member \<noteq> [] then List.map_filter parse (fm_descriptorStrings member)
      else if fm_descriptors member \<noteq> None \<and> fm_descriptors member \<noteq> Some []
           then (case fm_descriptors member of Some ds \<Rightarrow> ds | None \<Rightarrow> [])
      else (case fm_descriptor member of Some d \<Rightarrow> [d] | None \<Rightarrow> []))"

text \<open>The descriptors from tagged photos are preferred over the enrolled ones.\<close>

definition spec_referenceSet ::
  "(string \<Rightarrow> real list option) \<Rightarrow> StoredPhoto list \<Rightarrow> FamilyMember \<Rightarrow> real list list" where
  "spec_referenceSet parse photos member =
     (if spec_taggedDescriptors parse photos member \<noteq> []
      then spec_taggedDescriptors parse photos member
      else spec_ownDescriptors parse member)"

subsection \<open>The library's matcher\<close>

text \<open>
  The repository imports the matcher of the face-recognition library
  (\<open>faceapi.FaceMatcher\<close> with \<open>findBestMatch\<close>) and does not contain it. The four
  definitions of this subsection follow what the specification and the comment above
  \<open>MATCH_THRESHOLD\<close> say about it.
\<close>

text \<open>
  Modelled from the spec: the distance between two descriptors, which the library computes
  and the repository does not contain; the spec speaks of nearest-neighbour distance
  between fixed-length numeric vectors.
\<close>

definition euclideanDistance :: "real list \<Rightarrow> real list \<Rightarrow> real" where
  "euclideanDistance a b = sqrt (\<Sum>p\<leftarrow>zip a b. (fst p - snd p)\<^sup>2)"

text \<open>
  Modelled from the spec: the distance of a query to one identity, missing with the
  library; the spec judges an identity by its closest reference descriptor.
  \<open>matchFaces\<close> hands over only identities that have a descriptor; the value for the
  empty list is a placeholder.
\<close>

fun closestDistance :: "real list \<Rightarrow> real list list \<Rightarrow> real" where
  "closestDistance q [] = 0"
| "closestDistance q [d] = euclideanDistance q d"
| "closestDistance q (d # ds) = min (euclideanDistance q d) (closestDistance q ds)"

text \<open>
  Modelled from the spec: the library's choice of the best-matching label, missing with
  the library; the spec asks for the nearest identity. Among equally near identities the
  later one is taken. \<open>matchFaces\<close> builds no matcher from an empty list; the value for
  it is a placeholder.
\<close>

definition bestLabel :: "real list \<Rightarrow> (string \<times> real list list) list \<Rightarrow> string \<times> real" where
  "bestLabel q labeled =
     (case map (\<lambda>ld. (fst ld, closestDistance q (snd ld))) labeled of
        [] \<Rightarrow> (''unknown'', 0)
      | m # ms \<Rightarrow> foldl (\<lambda>best curr. if snd best < snd curr then best else curr) m ms)"

text \<open>
  Modelled from the spec: \<open>findBestMatch\<close> of the library's \<open>FaceMatcher\<close>, missing with
  the library. The spec: given labeled reference descriptor sets and a distance
  threshold, find the best-matching label or none; an identity whose closest reference
  descriptor exceeds the threshold is reported unmatched. The source's comment: a match
  happens when the distance is at most the threshold; the source reads the label
  \<open>unknown\<close> as no match.
\<close>

definition findBestMatch :: "(string \<times> real list list) list \<Rightarrow> real \<Rightarrow> real list \<Rightarrow> string \<times> real" where
  "findBestMatch labeled threshold q =
     (let best = bestLabel q labeled
      in if snd best \<le> threshold then best else (''unknown'', snd best))"

subsection \<open>\<open>matchFaces\<close>\<close>

definition matchFaces ::
  "(string \<Rightarrow> string \<Rightarrow> int) \<Rightarrow> (string \<Rightarrow> real list option) \<Rightarrow> error option \<Rightarrow> error option
     \<Rightarrow> backend \<Rightarrow> DetectedFace list \<Rightarrow> error + DetectedFace list" where
  "matchFaces localeCompare parse faultMembers faultPhotos b detectedFaces =
     (let familyMembers = getFamilyMembers localeCompare faultMembers b in
      if familyMembers = [] then Inr detectedFaces
      else
        (let training = getTrainingDescriptorsFromTaggedPhotos parse faultPhotos b in
         case labeledDescriptors parse familyMembers training of
           Inl e \<Rightarrow> Inl e
         | Inr labeled \<Rightarrow>
             if labeled = [] then Inr detectedFaces
             else Inr (map (\<lambda>face.
                         let match = findBestMatch labeled MATCH_THRESHOLD (df_descriptor face)
                         in if fst match \<noteq> ''unknown''
                            then face\<lparr>df_matchedMember := find (\<lambda>m. fm_id m = fst match) familyMembers,
                                      df_confidence := Some (1 - snd match)\<rparr>
                            else face)
                       detectedFaces)))"

section \<open>The country panel: \<open>src/components/CountryPanel.tsx\<close>\<close>

subsection \<open>\<open>convertToJpegIfNeeded\<close>\<close>

record File =
  file_name :: string
  file_type :: string
  file_bytes :: "nat list"

text \<open>
  Decoding and encoding are done by the browser and by the HEIC converter. They enter as
  a record of functions: \<open>heic2any\<close> yields the JPEG bytes, or \<open>None\<close> where the import
  or the conversion throws or no blob comes out; \<open>decodeImage\<close> yields the width and
  height of the decoded image, or \<open>None\<close> where decoding fails; \<open>canvasToJpeg\<close> draws the
  image at the given size and encodes it, or yields \<open>None\<close> where there is no 2d context
  or no blob. The scale factor is computed in IEEE double arithmetic, whose quotient and
  product are rounded to the nearest double: \<open>doubleDiv\<close> and \<open>doubleMul\<close> are that
  division and multiplication.
\<close>

record codecs =
  heic2any :: "File \<Rightarrow> nat list option"
  decodeImage :: "File \<Rightarrow> (nat \<times> nat) option"
  canvasToJpeg :: "File \<Rightarrow> nat \<Rightarrow> nat \<Rightarrow> nat list option"
  doubleDiv :: "real \<Rightarrow> real \<Rightarrow> real"
  doubleMul :: "real \<Rightarrow> real \<Rightarrow> real"

definition isWebp :: "File \<Rightarrow> bool" where
  "isWebp file =
     (toLowerCase (file_type file) = ''image/webp'' \<or> endsWith (toLowerCase (file_name file)) ''.webp'')"

definition isHeic :: "File \<Rightarrow> bool" where
  "isHeic file =
     (toLowerCase (file_type file) = ''image/heic'' \<or> toLowerCase (file_type file) = ''image/heif''
      \<or> endsWith (toLowerCase (file_name file)) ''.heic''
      \<or> endsWith (toLowerCase (file_name file)) ''.heif'')"

text \<open>
  \<open>name.replace(/\.(ext1|ext2)$/i, '.jpg')\<close>: an extension at the very end of the name,
  in either case, is replaced.
\<close>

definition replaceExtension :: "string list \<Rightarrow> string \<Rightarrow> string" where
  "replaceExtension exts name =
     (case find (\<lambda>ext. endsWith (toLowerCase name) ext) exts of
        None \<Rightarrow> name
      | Some ext \<Rightarrow> take (length name - length ext) name @ ''.jpg'')"

text \<open>
  \<open>Math.min(1, maxDim / Math.max(img.width, img.height))\<close>: for an image of size zero the
  quotient is infinite and the minimum is 1.
\<close>

definition scaledSize :: "codecs \<Rightarrow> nat \<Rightarrow> nat \<Rightarrow> nat \<times> nat" where
  "scaledSize env width height =
     (let maxDim = (2200 :: real);
          scale = (if max width height = 0 then 1
                   else min 1 (doubleDiv env maxDim (real (max width height))));
          w = max 1 (js_round (doubleMul env (real width) scale));
          h = max 1 (js_round (doubleMul env (real height) scale))
      in (nat w, nat h))"

definition convertToJpegIfNeeded :: "codecs \<Rightarrow> File \<Rightarrow> File" where
  "convertToJpegIfNeeded env file =
     (if \<not> isWebp file \<and> \<not> isHeic file then file
      else if isHeic file then
        (case heic2any env file of
           None \<Rightarrow> file
         | Some outBlob \<Rightarrow>
             (let replaced = replaceExtension [''.heic'', ''.heif''] (file_name file);
                  newName = (if replaced = [] then ''photo.jpg'' else replaced)
              in \<lparr>file_name = newName, file_type = ''image/jpeg'', file_bytes = outBlob\<rparr>))
      else
        (case decodeImage env file of
           None \<Rightarrow> file
         | Some (width, height) \<Rightarrow>
             (case canvasToJpeg env file (fst (scaledSize env width height))
                                          (snd (scaledSize env width height)) of
                None \<Rightarrow> file
              | Some blob \<Rightarrow>
                  \<lparr>file_name = replaceExtension [''.webp''] (file_name file),
                   file_type = ''image/jpeg'', file_bytes = blob\<rparr>)))"

subsection \<open>Tagging state and \<open>removePerson\<close>\<close>

text \<open>
  Of the component's state, the photo list and the id of the open photo matter here. A
  handler takes the state and the backend and returns both after the call.
\<close>

record panel =
  panel_photos :: "StoredPhoto list"
  panel_activePhotoId :: "string option"

definition activePhoto :: "panel \<Rightarrow> StoredPhoto option" where
  "activePhoto ui =
     (case panel_activePhotoId ui of
        None \<Rightarrow> None
      | Some i \<Rightarrow> if i = [] then None else find (\<lambda>p. sp_id p = i) (panel_photos ui))"

definition handleUpdateFaceTags ::
  "error option \<Rightarrow> string \<Rightarrow> FaceTag list \<Rightarrow> panel \<times> backend \<Rightarrow> panel \<times> backend" where
  "handleUpdateFaceTags fault photoId faceTags st =
     (case updatePhotoFaceTags fault photoId faceTags (snd st) of
        Inl e \<Rightarrow> st
      | Inr b' \<Rightarrow>
          ((fst st)\<lparr>panel_photos :=
              map (\<lambda>p. if sp_id p = photoId then p\<lparr>sp_faceTags := faceTags\<rparr> else p)
                  (panel_photos (fst st))\<rparr>, b'))"

definition clearAssignment :: "string \<Rightarrow> DetectedFaceData \<Rightarrow> DetectedFaceData" where
  "clearAssignment memberId df =
     (if dfd_assignedMemberId df \<noteq> Some memberId then df
      else df\<lparr>dfd_assignedMemberId := None, dfd_assignedMemberName := None\<rparr>)"

definition removePerson ::
  "error option \<Rightarrow> error option \<Rightarrow> string \<Rightarrow> panel \<times> backend \<Rightarrow> (error + unit) \<times> panel \<times> backend" where
  "removePerson faultTags faultFaces memberId st =
     (case activePhoto (fst st) of
        None \<Rightarrow> (Inr (), st)
      | Some ap \<Rightarrow>
          (let next = filter (\<lambda>t. ft_memberId t \<noteq> memberId) (sp_faceTags ap);
               st1 = handleUpdateFaceTags faultTags (sp_id ap) next st;
               dfs = map (clearAssignment memberId)
                         (case sp_detectedFaces ap of None \<Rightarrow> [] | Some faces \<Rightarrow> faces)
           in if dfs \<noteq> [] then
                (case updatePhotoDetectedFaces faultFaces (sp_id ap) dfs (snd st1) of
                   Inl e \<Rightarrow> (Inl e, st1)
                 | Inr b2 \<Rightarrow>
                     (Inr (),
                      (fst st1)\<lparr>panel_photos :=
                         map (\<lambda>p. if sp_id p = sp_id ap then p\<lparr>sp_detectedFaces := Some dfs\<rparr> else p)
                             (panel_photos (fst st1))\<rparr>,
                      b2))
              else (Inr (), st1)))"

section \<open>Example data\<close>

text \<open>A small backend and panel state on which the theorems below are instantiated.\<close>

definition exampleBox :: Box where
  "exampleBox = \<lparr>box_x = 10, box_y = 20, box_width = 30, box_height = 40\<rparr>"

definition exampleFace :: "string \<Rightarrow> string option \<Rightarrow> DetectedFaceData" where
  "exampleFace ident assigned =
     \<lparr>dfd_id = ident, dfd_thumbnail = ''data:image/jpeg;base64,'', dfd_box = exampleBox,
      dfd_descriptorString = ''[0.5,0.25]'', dfd_assignedMemberId = assigned,
      dfd_assignedMemberName = map_option (\<lambda>m. ''name of '' @ m) assigned,
      dfd_suggestedMemberId = Some ''family-1'', dfd_suggestedMemberName = Some ''name of family-1'',
      dfd_confidence = Some (3 / 4)\<rparr>"

definition exampleTag :: "string \<Rightarrow> FaceTag" where
  "exampleTag m =
     \<lparr>ft_memberId = m, ft_memberName = ''name of '' @ m, ft_box = exampleBox, ft_confidence = None\<rparr>"

definition photoA :: StoredPhoto where
  "photoA =
     \<lparr>sp_id = ''FR-1'', sp_countryIso = ''FR'', sp_url = ''https://store/FR-1'', sp_name = ''a.jpg'',
      sp_caption = [], sp_faceTags = [exampleTag ''family-1'', exampleTag ''family-2''],
      sp_detectedFaces = Some [exampleFace ''f1'' (Some ''family-1''), exampleFace ''f2'' (Some ''family-2''),
                               exampleFace ''f3'' None],
      sp_createdAt = 1700000000000\<rparr>"

definition photoB :: StoredPhoto where
  "photoB =
     \<lparr>sp_id = ''FR-2'', sp_countryIso = ''FR'', sp_url = ''https://store/FR-2'', sp_name = ''b.jpg'',
      sp_caption = [], sp_faceTags = [], sp_detectedFaces = None, sp_createdAt = 1700000000500\<rparr>"

definition exampleBackend :: backend where
  "exampleBackend =
     \<lparr>tripsConfig = None, photoDocs = [(''FR-1'', photoA), (''FR-2'', photoB)], familyDocs = [],
      blobs = [''photos/FR-1'', ''photos/FR-2'']\<rparr>"

definition examplePanel :: panel where
  "examplePanel = \<lparr>panel_photos = [photoB, photoA], panel_activePhotoId = Some ''FR-1''\<rparr>"

definition exampleParse :: "string \<Rightarrow> real list option" where
  "exampleParse s =
     (if s = ''[0.5,0.25]'' then Some [1 / 2, 1 / 4]
      else if s = ''[1,0]'' then Some [1, 0]
      else None)"

definition exampleCompare :: "string \<Rightarrow> string \<Rightarrow> int" where
  "exampleCompare a b = int (length a) - int (length b)"

definition exampleMember :: "string \<Rightarrow> string list \<Rightarrow> real list option \<Rightarrow> FamilyMember" where
  "exampleMember ident strs legacy =
     \<lparr>fm_id = ident, fm_name = ''name of '' @ ident, fm_descriptorStrings = strs, fm_photoUrls = [],
      fm_createdAt = 1700000000000, fm_descriptor = legacy, fm_descriptors = None, fm_photoUrl = None\<rparr>"

definition exampleQuery :: DetectedFace where
  "exampleQuery =
     \<lparr>df_descriptor = [1 / 2, 1 / 4], df_box = exampleBox, df_matchedMember = None, df_confidence = None\<rparr>"

definition familyBackend :: "string \<Rightarrow> backend" where
  "familyBackend ident =
     \<lparr>tripsConfig = None, photoDocs = [(''FR-2'', photoB)],
      familyDocs = [(ident, exampleMember ident [''[0.5,0.25]''] None)], blobs = [''photos/FR-2'']\<rparr>"

text \<open>
  A backend in which the member \<open>family-1\<close> is tagged on a stored photo and carries one
  enrolled descriptor string that is not JSON.
\<close>

definition brokenMember :: FamilyMember where
  "brokenMember = exampleMember ''family-1'' [''not json''] None"

definition brokenBackend :: backend where
  "brokenBackend =
     \<lparr>tripsConfig = None, photoDocs = [(''FR-1'', photoA)],
      familyDocs = [(''family-1'', brokenMember)], blobs = [''photos/FR-1'']\<rparr>"

section \<open>Properties\<close>

lemma mset_insortBy: "mset (insortBy cmp x xs) = add_mset x (mset xs)"
  by (induction xs) auto

lemma mset_js_sort: "mset (js_sort cmp xs) = mset xs"
  by (induction xs) (auto simp: js_sort_def mset_insortBy)

lemma length_js_sort: "length (js_sort cmp xs) = length xs"
  using mset_js_sort [of cmp xs] by (metis size_mset)

text \<open>
  The quotient \<open>n / 195 * 100\<close> never lies halfway between two integers, so the
  rounding direction at a tie plays no part in the percentage.
\<close>

lemma worldPercentage_never_halfway: "real n / 195 * 100 \<noteq> real_of_int k + 1 / 2"
proof
  assume eq: "real n / 195 * 100 = real_of_int k + 1 / 2"
  have l: "real n / 195 * 100 * 390 = real_of_int (200 * int n)"
    by simp
  have r: "(real_of_int k + 1 / 2) * 390 = real_of_int (390 * k + 195)"
    by (simp add: distrib_right)
  from eq have "real n / 195 * 100 * 390 = (real_of_int k + 1 / 2) * 390"
    by (simp only:)
  with l r have "real_of_int (200 * int n) = real_of_int (390 * k + 195)"
    by (simp only:)
  then have "200 * int n = 390 * k + 195"
    by (simp only: of_int_eq_iff)
  moreover have "even (200 * int n)"
    by simp
  moreover have "odd (390 * k + 195)"
    by simp
  ultimately show False
    by (simp only:)
qed

lemma js_round_percentage:
  "js_round (real n / 195 * 100) = (200 * int n + 195) div 390"
proof -
  have "real n / 195 * 100 + 1 / 2 = real_of_int (200 * int n + 195) / real_of_int 390"
    by simp
  then have "js_round (real n / 195 * 100) = \<lfloor>real_of_int (200 * int n + 195) / real_of_int 390\<rfloor>"
    by (simp only: js_round_def)
  also have "\<dots> = (200 * int n + 195) div 390"
    by (rule floor_divide_of_int_eq)
  finally show ?thesis .
qed

text \<open>
  Claim C9. \<open>getTravelStats\<close> computes the world percentage as the quotient
  \<open>visited.length / 195 * 100\<close> rounded to the nearest integer, the denominator being the
  constant 195: it is \<open>round\<close> of that quotient, which in integers is
  \<open>(200 * n + 195) div 390\<close>; without data it is 0. With exactly ten visited countries
  the result is 5.
\<close>

theorem getTravelStats_worldPercentage:
  "worldPercentage (getTravelStats (Some d)) = round (real (length (visited d)) / 195 * 100)
   \<and> worldPercentage (getTravelStats (Some d)) = (200 * int (length (visited d)) + 195) div 390
   \<and> worldPercentage (getTravelStats None) = 0
   \<and> countriesVisited (getTravelStats (Some d)) = length (visited d)
   \<and> (length (visited d) = 10 \<longrightarrow> worldPercentage (getTravelStats (Some d)) = 5)"
proof -
  have wp: "worldPercentage (getTravelStats (Some d)) = js_round (real (length (visited d)) / 195 * 100)"
    by (simp add: getTravelStats_def Let_def TOTAL_COUNTRIES_IN_WORLD_def)
  have r: "worldPercentage (getTravelStats (Some d)) = round (real (length (visited d)) / 195 * 100)"
    unfolding wp by (simp only: js_round_def round_def)
  have i: "worldPercentage (getTravelStats (Some d)) = (200 * int (length (visited d)) + 195) div 390"
    unfolding wp by (rule js_round_percentage)
  have z: "worldPercentage (getTravelStats None) = 0"
    by (simp add: getTravelStats_def Let_def js_round_def)
  have c: "countriesVisited (getTravelStats (Some d)) = length (visited d)"
    by (simp add: getTravelStats_def Let_def)
  have t: "length (visited d) = 10 \<longrightarrow> worldPercentage (getTravelStats (Some d)) = 5"
    using i by simp
  from r i z c t show ?thesis
    by blast
qed

theorem getTravelStats_worldPercentage_witness:
  "length (visited \<lparr>profile = \<lparr>title = ''T'', subtitle = ''S''\<rparr>, homeCountry = None,
                     visited = map newTrip (take 10 ALL_COUNTRIES)\<rparr>) = 10
   \<and> worldPercentage (getTravelStats (Some \<lparr>profile = \<lparr>title = ''T'', subtitle = ''S''\<rparr>,
                     homeCountry = None, visited = map newTrip (take 10 ALL_COUNTRIES)\<rparr>)) = 5
   \<and> worldPercentage (getTravelStats (Some \<lparr>profile = \<lparr>title = ''T'', subtitle = ''S''\<rparr>,
                     homeCountry = None, visited = map newTrip (take 1 ALL_COUNTRIES)\<rparr>)) = 1
   \<and> worldPercentage (getTravelStats (Some \<lparr>profile = \<lparr>title = ''T'', subtitle = ''S''\<rparr>,
                     homeCountry = None, visited = map newTrip (take 55 ALL_COUNTRIES)\<rparr>)) = 28"
proof -
  let ?d = "\<lambda>k. \<lparr>profile = \<lparr>title = ''T'', subtitle = ''S''\<rparr>, homeCountry = None,
                 visited = map newTrip (take k ALL_COUNTRIES)\<rparr>"
  have len: "length (visited (?d 10)) = 10" "length (visited (?d 1)) = 1" "length (visited (?d 55)) = 55"
    by (simp_all add: ALL_COUNTRIES_def)
  from getTravelStats_worldPercentage [of "?d 10"] len(1)
  have ten: "worldPercentage (getTravelStats (Some (?d 10))) = 5"
    by blast
  from getTravelStats_worldPercentage [of "?d 1"]
  have "worldPercentage (getTravelStats (Some (?d 1))) = (200 * int (length (visited (?d 1))) + 195) div 390"
    by blast
  then have one: "worldPercentage (getTravelStats (Some (?d 1))) = 1"
    by (simp only: len, simp?)
  from getTravelStats_worldPercentage [of "?d 55"]
  have "worldPercentage (getTravelStats (Some (?d 55))) = (200 * int (length (visited (?d 55))) + 195) div 390"
    by blast
  then have all: "worldPercentage (getTravelStats (Some (?d 55))) = 28"
    by (simp only: len, simp?)
  from len(1) ten one all show ?thesis
    by simp
qed

lemma ALL_COUNTRIES_iso2_nonempty: "\<forall>c\<in>set ALL_COUNTRIES. ci_iso2 c \<noteq> []"
  by (simp add: ALL_COUNTRIES_def country_def)

lemma normalizeIso2_examples:
  "normalizeIso2 asciiOps '' fr '' = ''FR''" "normalizeIso2 asciiOps ''FR'' = ''FR''"
  "normalizeIso2 asciiOps ''de'' = ''DE''"
  by (simp_all add: normalizeIso2_def asciiOps_def asciiTrim_def asciiToUpperCase_def
        isWhiteSpace_def lowerLetters_def upperLetters_def)

text \<open>
  Claim C5. In a loaded trips state, \<open>addCountry\<close> with a code whose normalized form
  (trimmed, upper-cased) is already among the visited trips leaves the state as it is.
  With a normalized code that is not among them and is found in the list of known
  countries, it stores a state whose visited list is the old one with exactly one new trip
  added, that trip having an empty year, no cities, empty notes and no photos; the list
  is one element longer. The normalized form is the code trimmed and then upper-cased by
  the runtime's own \<open>trim\<close> and \<open>toUpperCase\<close>, whatever they do to a string.
\<close>

theorem addCountry_duplicate_or_insert:
  "(list_ex (\<lambda>t. op_toUpperCase ops (op_trim ops (td_iso2 t)) = op_toUpperCase ops (op_trim ops code)) (visited d)
      \<longrightarrow> addCountry ops cmp (Some d) code = Some d)
   \<and> (\<not> list_ex (\<lambda>t. op_toUpperCase ops (op_trim ops (td_iso2 t)) = op_toUpperCase ops (op_trim ops code)) (visited d)
        \<and> find (\<lambda>c. ci_iso2 c = op_toUpperCase ops (op_trim ops code)) ALL_COUNTRIES = Some info
      \<longrightarrow> (\<exists>d'. addCountry ops cmp (Some d) code = Some d'
             \<and> mset (visited d') = add_mset (newTrip info) (mset (visited d))
             \<and> length (visited d') = Suc (length (visited d))
             \<and> td_year (newTrip info) = [] \<and> td_cities (newTrip info) = []
             \<and> td_notes (newTrip info) = [] \<and> td_photos (newTrip info) = []
             \<and> td_iso2 (newTrip info) = op_toUpperCase ops (op_trim ops code)
             \<and> profile d' = profile d \<and> homeCountry d' = homeCountry d))"
proof (intro conjI impI)
  assume "list_ex (\<lambda>t. op_toUpperCase ops (op_trim ops (td_iso2 t)) = op_toUpperCase ops (op_trim ops code)) (visited d)"
  then show "addCountry ops cmp (Some d) code = Some d"
    by (simp add: addCountry_def normalizeIso2_def Let_def)
next
  assume a: "\<not> list_ex (\<lambda>t. op_toUpperCase ops (op_trim ops (td_iso2 t)) = op_toUpperCase ops (op_trim ops code)) (visited d)
        \<and> find (\<lambda>c. ci_iso2 c = op_toUpperCase ops (op_trim ops code)) ALL_COUNTRIES = Some info"
  then have known: "find (\<lambda>c. ci_iso2 c = op_toUpperCase ops (op_trim ops code)) ALL_COUNTRIES = Some info"
    by simp
  then have mem: "info \<in> set ALL_COUNTRIES" and eq: "ci_iso2 info = op_toUpperCase ops (op_trim ops code)"
    by (auto simp: find_Some_iff)
  from mem ALL_COUNTRIES_iso2_nonempty eq have ne: "op_toUpperCase ops (op_trim ops code) \<noteq> []"
    by metis
  let ?d' = "d\<lparr>visited := js_sort (\<lambda>a b. cmp (td_countryName a) (td_countryName b))
                              (visited d @ [newTrip info])\<rparr>"
  have "addCountry ops cmp (Some d) code = Some ?d'"
    using a known ne by (simp add: addCountry_def normalizeIso2_def Let_def)
  moreover have "mset (visited ?d') = add_mset (newTrip info) (mset (visited d))"
    by (simp add: mset_js_sort)
  moreover have "length (visited ?d') = Suc (length (visited d))"
    by (simp add: length_js_sort)
  ultimately show "\<exists>d'. addCountry ops cmp (Some d) code = Some d'
             \<and> mset (visited d') = add_mset (newTrip info) (mset (visited d))
             \<and> length (visited d') = Suc (length (visited d))
             \<and> td_year (newTrip info) = [] \<and> td_cities (newTrip info) = []
             \<and> td_notes (newTrip info) = [] \<and> td_photos (newTrip info) = []
             \<and> td_iso2 (newTrip info) = op_toUpperCase ops (op_trim ops code)
             \<and> profile d' = profile d \<and> homeCountry d' = homeCountry d"
    using eq by (intro exI [of _ ?d']) (simp add: newTrip_def)
qed

theorem addCountry_duplicate_or_insert_witness:
  "addCountry asciiOps exampleCompare
       (Some \<lparr>profile = \<lparr>title = ''T'', subtitle = ''S''\<rparr>, homeCountry = None,
              visited = [newTrip (country ''France'' ''FR'' ''Europe'')]\<rparr>) '' fr ''
     = Some \<lparr>profile = \<lparr>title = ''T'', subtitle = ''S''\<rparr>, homeCountry = None,
             visited = [newTrip (country ''France'' ''FR'' ''Europe'')]\<rparr>
   \<and> (\<exists>d'. addCountry asciiOps exampleCompare
              (Some \<lparr>profile = \<lparr>title = ''T'', subtitle = ''S''\<rparr>, homeCountry = None,
                     visited = [newTrip (country ''France'' ''FR'' ''Europe'')]\<rparr>) ''de'' = Some d'
          \<and> mset (visited d')
              = {#newTrip (country ''Germany'' ''DE'' ''Europe''),
                  newTrip (country ''France'' ''FR'' ''Europe'')#}
          \<and> length (visited d') = Suc (Suc 0))"
proof -
  let ?d = "\<lparr>profile = \<lparr>title = ''T'', subtitle = ''S''\<rparr>, homeCountry = None,
             visited = [newTrip (country ''France'' ''FR'' ''Europe'')]\<rparr>"
  have dup: "list_ex (\<lambda>t. op_toUpperCase asciiOps (op_trim asciiOps (td_iso2 t)) = op_toUpperCase asciiOps (op_trim asciiOps '' fr '')) (visited ?d)"
    by (simp add: normalizeIso2_examples [unfolded normalizeIso2_def] newTrip_def country_def)
  have fresh: "\<not> list_ex (\<lambda>t. op_toUpperCase asciiOps (op_trim asciiOps (td_iso2 t)) = op_toUpperCase asciiOps (op_trim asciiOps ''de'')) (visited ?d)"
    by (simp add: normalizeIso2_examples [unfolded normalizeIso2_def] newTrip_def country_def)
  have known: "find (\<lambda>c. ci_iso2 c = op_toUpperCase asciiOps (op_trim asciiOps ''de'')) ALL_COUNTRIES
                 = Some (country ''Germany'' ''DE'' ''Europe'')"
    by (simp add: normalizeIso2_examples [unfolded normalizeIso2_def] ALL_COUNTRIES_def country_def)
  from addCountry_duplicate_or_insert [where ops = asciiOps and code = "'' fr ''" and d = ?d and cmp = exampleCompare] dup
  have one: "addCountry asciiOps exampleCompare (Some ?d) '' fr '' = Some ?d"
    by blast
  from addCountry_duplicate_or_insert
         [where ops = asciiOps and code = "''de''" and d = ?d and cmp = exampleCompare
            and info = "country ''Germany'' ''DE'' ''Europe''"] fresh known
  have "\<exists>d'. addCountry asciiOps exampleCompare (Some ?d) ''de'' = Some d'
          \<and> mset (visited d') = add_mset (newTrip (country ''Germany'' ''DE'' ''Europe''))
                                          (mset (visited ?d))
          \<and> length (visited d') = Suc (length (visited ?d))"
    by blast
  then have two: "\<exists>d'. addCountry asciiOps exampleCompare (Some ?d) ''de'' = Some d'
          \<and> mset (visited d')
              = {#newTrip (country ''Germany'' ''DE'' ''Europe''),
                  newTrip (country ''France'' ''FR'' ''Europe'')#}
          \<and> length (visited d') = Suc (Suc 0)"
    by simp
  from one two show ?thesis
    by blast
qed

lemma rebuildFromPhotos_snoc:
  "rebuildFromPhotos ops (ps @ [p]) = rebuildStep ops (rebuildFromPhotos ops ps) p"
  by (simp add: rebuildFromPhotos_def)

lemma registerPhoto_counts_as_rebuildStep:
  "photoCounts (registerPhoto ops p m) = photoCounts (rebuildStep ops m p)"
  by (auto simp: photoCounts_def registerPhoto_def rebuildStep_def Let_def fun_eq_iff
           split: option.splits)

lemma registerPhoto_eq_rebuildStep_no_tie:
  assumes "\<And>c. m (normalizeIso2 ops (sp_countryIso p)) = Some c \<Longrightarrow> pe_createdAt c \<noteq> sp_createdAt p"
  shows "registerPhoto ops p m = rebuildStep ops m p"
proof (cases "m (normalizeIso2 ops (sp_countryIso p))")
  case None
  then show ?thesis
    by (simp add: registerPhoto_def rebuildStep_def Let_def)
next
  case (Some c)
  with assms have "pe_createdAt c \<noteq> sp_createdAt p"
    by simp
  with Some show ?thesis
    by (auto simp: registerPhoto_def rebuildStep_def Let_def)
qed

text \<open>The count of the photo's normalized country code goes up by exactly one.\<close>

lemma registerPhoto_count_increment:
  assumes "normalizeIso2 ops (sp_countryIso p) \<noteq> []"
  shows "photoCounts (registerPhoto ops p m) (normalizeIso2 ops (sp_countryIso p))
           = Some (case photoCounts m (normalizeIso2 ops (sp_countryIso p)) of None \<Rightarrow> 1 | Some n \<Rightarrow> n + 1)"
    and "other \<noteq> normalizeIso2 ops (sp_countryIso p)
           \<Longrightarrow> photoCounts (registerPhoto ops p m) other = photoCounts m other"
  using assms
  by (auto simp: photoCounts_def registerPhoto_def Let_def split: option.splits)

text \<open>The incremental update counts as the full rebuild does, whatever the photos.\<close>

lemma registerPhoto_counts_refine_rebuild:
  "photoCounts (registerPhoto ops p (rebuildFromPhotos ops ps)) = photoCounts (rebuildFromPhotos ops (ps @ [p]))"
  by (simp add: rebuildFromPhotos_snoc registerPhoto_counts_as_rebuildStep)

text \<open>
  The two agree on the whole state when the new photo's timestamp differs from the one
  of the entry its country already has.
\<close>

lemma registerPhoto_refines_rebuild_no_tie:
  assumes "\<And>c. rebuildFromPhotos ops ps (normalizeIso2 ops (sp_countryIso p)) = Some c
                 \<Longrightarrow> pe_createdAt c \<noteq> sp_createdAt p"
  shows "registerPhoto ops p (rebuildFromPhotos ops ps) = rebuildFromPhotos ops (ps @ [p])"
  using assms by (simp add: rebuildFromPhotos_snoc registerPhoto_eq_rebuildStep_no_tie)

text \<open>
  Claim C3. Applying \<open>registerPhoto p\<close> to the state \<open>rebuildFromPhotos ps\<close> should give
  the preview URL and the count of \<open>rebuildFromPhotos (ps @ [p])\<close> for every country.
  The code does not: \<open>rebuildFromPhotos\<close> replaces the preview when the photo's
  \<open>createdAt\<close> is greater than the entry's, \<open>registerPhoto\<close> when it is greater or equal.
  Two photos of France with the same timestamp, the stored one with URL \<open>a\<close> and the new
  one with URL \<open>b\<close>: the incremental update shows \<open>b\<close>, the rebuild shows \<open>a\<close>; both
  count two photos.
\<close>

theorem registerPhoto_rebuild_diverge_on_equal_createdAt:
  "photoPreviews
     (registerPhoto asciiOps
        \<lparr>sp_id = ''FR-2'', sp_countryIso = ''FR'', sp_url = ''b'', sp_name = ''b.jpg'',
         sp_caption = [], sp_faceTags = [], sp_detectedFaces = Some [], sp_createdAt = 1\<rparr>
        (rebuildFromPhotos asciiOps
           [\<lparr>sp_id = ''FR-1'', sp_countryIso = ''FR'', sp_url = ''a'', sp_name = ''a.jpg'',
             sp_caption = [], sp_faceTags = [], sp_detectedFaces = Some [], sp_createdAt = 1\<rparr>]))
     ''FR'' = Some ''b''
   \<and> photoPreviews
       (rebuildFromPhotos asciiOps
          ([\<lparr>sp_id = ''FR-1'', sp_countryIso = ''FR'', sp_url = ''a'', sp_name = ''a.jpg'',
             sp_caption = [], sp_faceTags = [], sp_detectedFaces = Some [], sp_createdAt = 1\<rparr>]
           @ [\<lparr>sp_id = ''FR-2'', sp_countryIso = ''FR'', sp_url = ''b'', sp_name = ''b.jpg'',
               sp_caption = [], sp_faceTags = [], sp_detectedFaces = Some [], sp_createdAt = 1\<rparr>]))
     ''FR'' = Some ''a''"
  by (simp add: photoPreviews_def registerPhoto_def rebuildFromPhotos_def rebuildStep_def
        normalizeIso2_examples Let_def)

lemma sanitizeForFirestore_undefined_iff:
  "sanitizeForFirestore v = JUndefined \<longleftrightarrow> v = JUndefined"
  by (cases v) simp_all

lemma sanitizeForFirestore_no_undefined_inside:
  "v \<noteq> JUndefined \<Longrightarrow> \<not> hasUndefined (sanitizeForFirestore v)"
proof (induction v rule: sanitizeForFirestore.induct)
  case (1 vs)
  have "\<not> hasUndefined (sanitizeForFirestore x)" if "x \<in> set vs" "sanitizeForFirestore x \<noteq> JUndefined" for x
    using that "1.IH" [of x] by (auto simp: sanitizeForFirestore_undefined_iff)
  then show ?case
    by (auto simp: list_ex_iff)
next
  case (2 es)
  have "\<not> hasUndefined (sanitizeForFirestore (snd x))"
    if "x \<in> set es" "sanitizeForFirestore (snd x) \<noteq> JUndefined" for x
    using that "2.IH" [of x] by (auto simp: sanitizeForFirestore_undefined_iff)
  then show ?case
    by (auto simp: list_ex_iff)
qed simp_all

lemma sanitizeForFirestore_array:
  "sanitizeForFirestore (JArr vs) = JArr (map sanitizeForFirestore (filter (\<lambda>x. x \<noteq> JUndefined) vs))"
  by (simp add: filter_map comp_def sanitizeForFirestore_undefined_iff)

lemma sanitizeForFirestore_object:
  "sanitizeForFirestore (JObj es)
     = JObj (map (\<lambda>e. (fst e, sanitizeForFirestore (snd e))) (filter (\<lambda>e. snd e \<noteq> JUndefined) es))"
  by (simp add: filter_map comp_def sanitizeForFirestore_undefined_iff)

text \<open>
  Claim C4, as stated: for every input value the result of \<open>sanitizeForFirestore\<close>
  contains no \<open>undefined\<close> anywhere. The function returns what is neither an array nor an
  object as it is, so \<open>undefined\<close> itself comes back as \<open>undefined\<close>.
\<close>

theorem sanitizeForFirestore_undefined_counterexample:
  "hasUndefined (sanitizeForFirestore JUndefined)"
  by simp

text \<open>
  Claim C4, amended. For every input value other than \<open>undefined\<close> itself the result
  contains no \<open>undefined\<close> anywhere: an array keeps, sanitized, exactly its entries that
  are not \<open>undefined\<close>, an object exactly its keys whose value is not \<open>undefined\<close>, and
  \<open>null\<close> stays \<open>null\<close>. Every write path wraps its arguments in an object literal or, for
  \<open>saveTripsData\<close>, passes the trips object, so what \<open>savePhoto\<close>, \<open>updatePhotoCaption\<close>,
  \<open>updatePhotoFaceTags\<close> and \<open>updatePhotoDetectedFaces\<close> write never contains \<open>undefined\<close>,
  and what \<open>saveTripsData\<close> writes does not when its argument is not \<open>undefined\<close>.
\<close>

theorem sanitizeForFirestore_strips_undefined:
  "(v \<noteq> JUndefined \<longrightarrow> \<not> hasUndefined (sanitizeForFirestore v))
   \<and> sanitizeForFirestore JNull = JNull
   \<and> sanitizeForFirestore (JArr vs)
       = JArr (map sanitizeForFirestore (filter (\<lambda>x. x \<noteq> JUndefined) vs))
   \<and> sanitizeForFirestore (JObj es)
       = JObj (map (\<lambda>e. (fst e, sanitizeForFirestore (snd e))) (filter (\<lambda>e. snd e \<noteq> JUndefined) es))
   \<and> \<not> hasUndefined (savePhoto_payload ident countryIso url name caption faceTags detectedFaces createdAt)
   \<and> \<not> hasUndefined (updatePhotoCaption_payload caption)
   \<and> \<not> hasUndefined (updatePhotoFaceTags_payload faceTags)
   \<and> \<not> hasUndefined (updatePhotoDetectedFaces_payload detectedFaces)
   \<and> (data \<noteq> JUndefined \<longrightarrow> \<not> hasUndefined (saveTripsData_payload data))"
proof (intro conjI)
  show "v \<noteq> JUndefined \<longrightarrow> \<not> hasUndefined (sanitizeForFirestore v)"
    by (simp add: sanitizeForFirestore_no_undefined_inside)
  show "sanitizeForFirestore JNull = JNull"
    by simp
  show "sanitizeForFirestore (JArr vs)
          = JArr (map sanitizeForFirestore (filter (\<lambda>x. x \<noteq> JUndefined) vs))"
    by (rule sanitizeForFirestore_array)
  show "sanitizeForFirestore (JObj es)
          = JObj (map (\<lambda>e. (fst e, sanitizeForFirestore (snd e))) (filter (\<lambda>e. snd e \<noteq> JUndefined) es))"
    by (rule sanitizeForFirestore_object)
  show "\<not> hasUndefined (savePhoto_payload ident countryIso url name caption faceTags detectedFaces createdAt)"
    unfolding savePhoto_payload_def by (rule sanitizeForFirestore_no_undefined_inside) simp
  show "\<not> hasUndefined (updatePhotoCaption_payload caption)"
    unfolding updatePhotoCaption_payload_def by (rule sanitizeForFirestore_no_undefined_inside) simp
  show "\<not> hasUndefined (updatePhotoFaceTags_payload faceTags)"
    unfolding updatePhotoFaceTags_payload_def by (rule sanitizeForFirestore_no_undefined_inside) simp
  show "\<not> hasUndefined (updatePhotoDetectedFaces_payload detectedFaces)"
    unfolding updatePhotoDetectedFaces_payload_def by (rule sanitizeForFirestore_no_undefined_inside) simp
  show "data \<noteq> JUndefined \<longrightarrow> \<not> hasUndefined (saveTripsData_payload data)"
    by (simp add: saveTripsData_payload_def sanitizeForFirestore_no_undefined_inside)
qed

theorem sanitizeForFirestore_strips_undefined_witness:
  "JObj [(''caption'', JUndefined),
         (''faceTags'', JArr [JNull, JUndefined, JObj [(''confidence'', JUndefined), (''memberId'', JStr ''m'')]])]
     \<noteq> JUndefined
   \<and> \<not> hasUndefined (sanitizeForFirestore
        (JObj [(''caption'', JUndefined),
               (''faceTags'', JArr [JNull, JUndefined, JObj [(''confidence'', JUndefined), (''memberId'', JStr ''m'')]])]))
   \<and> sanitizeForFirestore
        (JObj [(''caption'', JUndefined),
               (''faceTags'', JArr [JNull, JUndefined, JObj [(''confidence'', JUndefined), (''memberId'', JStr ''m'')]])])
      = JObj [(''faceTags'', JArr [JNull, JObj [(''memberId'', JStr ''m'')]])]
   \<and> JObj [(''visited'', JArr [])] \<noteq> JUndefined
   \<and> \<not> hasUndefined (saveTripsData_payload (JObj [(''visited'', JArr [])]))"
  using sanitizeForFirestore_strips_undefined
          [where v = "JObj [(''caption'', JUndefined),
                     (''faceTags'', JArr [JNull, JUndefined, JObj [(''confidence'', JUndefined), (''memberId'', JStr ''m'')]])]"
             and data = "JObj [(''visited'', JArr [])]"]
  by simp

text \<open>
  Claim C6. A file that is neither WebP nor HEIC/HEIF, judged by its MIME type and by the
  extension of its name (both compared in lower case), comes back from
  \<open>convertToJpegIfNeeded\<close> as it went in, whatever the decoders and encoders would do:
  same name, same type, same bytes.
\<close>

theorem convertToJpegIfNeeded_supported_unchanged:
  assumes "toLowerCase (file_type file) \<notin> {''image/webp'', ''image/heic'', ''image/heif''}"
    and "\<not> endsWith (toLowerCase (file_name file)) ''.webp''"
    and "\<not> endsWith (toLowerCase (file_name file)) ''.heic''"
    and "\<not> endsWith (toLowerCase (file_name file)) ''.heif''"
  shows "convertToJpegIfNeeded env file = file"
  using assms by (simp add: convertToJpegIfNeeded_def isWebp_def isHeic_def)

lemma toLowerCase_examples:
  "toLowerCase ''image/jpeg'' = ''image/jpeg''" "toLowerCase ''IMG_0001.JPG'' = ''img_0001.jpg''"
  by (simp_all add: toLowerCase_def lowerLetters_def upperLetters_def)

theorem convertToJpegIfNeeded_supported_unchanged_witness:
  "toLowerCase (file_type \<lparr>file_name = ''IMG_0001.JPG'', file_type = ''image/jpeg'', file_bytes = [255, 216, 255]\<rparr>)
     \<notin> {''image/webp'', ''image/heic'', ''image/heif''}
   \<and> \<not> endsWith (toLowerCase (file_name \<lparr>file_name = ''IMG_0001.JPG'', file_type = ''image/jpeg'',
                                          file_bytes = [255, 216, 255]\<rparr>)) ''.webp''
   \<and> \<not> endsWith (toLowerCase (file_name \<lparr>file_name = ''IMG_0001.JPG'', file_type = ''image/jpeg'',
                                          file_bytes = [255, 216, 255]\<rparr>)) ''.heic''
   \<and> \<not> endsWith (toLowerCase (file_name \<lparr>file_name = ''IMG_0001.JPG'', file_type = ''image/jpeg'',
                                          file_bytes = [255, 216, 255]\<rparr>)) ''.heif''
   \<and> convertToJpegIfNeeded
        \<lparr>heic2any = (\<lambda>f. Some [1]), decodeImage = (\<lambda>f. Some (4000, 3000)),
         canvasToJpeg = (\<lambda>f w h. Some [2]), doubleDiv = (\<lambda>x y. x / y), doubleMul = (\<lambda>x y. x * y)\<rparr>
        \<lparr>file_name = ''IMG_0001.JPG'', file_type = ''image/jpeg'', file_bytes = [255, 216, 255]\<rparr>
      = \<lparr>file_name = ''IMG_0001.JPG'', file_type = ''image/jpeg'', file_bytes = [255, 216, 255]\<rparr>"
proof -
  let ?file = "\<lparr>file_name = ''IMG_0001.JPG'', file_type = ''image/jpeg'', file_bytes = [255, 216, 255]\<rparr>"
  have t: "toLowerCase (file_type ?file) \<notin> {''image/webp'', ''image/heic'', ''image/heif''}"
    by (simp add: toLowerCase_examples)
  have w: "\<not> endsWith (toLowerCase (file_name ?file)) ''.webp''"
    by (simp add: toLowerCase_examples endsWith_def)
  have h1: "\<not> endsWith (toLowerCase (file_name ?file)) ''.heic''"
    by (simp add: toLowerCase_examples endsWith_def)
  have h2: "\<not> endsWith (toLowerCase (file_name ?file)) ''.heif''"
    by (simp add: toLowerCase_examples endsWith_def)
  from convertToJpegIfNeeded_supported_unchanged [OF t w h1 h2] t w h1 h2 show ?thesis
    by blast
qed

text \<open>
  Claim C10. A read whose call to the store rejects returns the value it returns when
  nothing is stored: \<open>getTripsData\<close> gives \<open>null\<close>, \<open>getFamilyMembers\<close>,
  \<open>getPhotosForCountry\<close> and \<open>getAllPhotos\<close> give the empty list, each for every
  error and every content of the backend. The result of a failed read is the result of a
  successful read of an empty store, so the caller cannot tell the two apart.
\<close>

theorem reads_swallow_errors:
  "getTripsData (Some e) b = None
   \<and> getFamilyMembers localeCompare (Some e) b = []
   \<and> getPhotosForCountry (Some e) countryIso b = []
   \<and> getAllPhotos (Some e) b = []
   \<and> getTripsData (Some e) b = getTripsData None (b\<lparr>tripsConfig := None\<rparr>)
   \<and> getFamilyMembers localeCompare (Some e) b = getFamilyMembers localeCompare None (b\<lparr>familyDocs := []\<rparr>)
   \<and> getPhotosForCountry (Some e) countryIso b = getPhotosForCountry None countryIso (b\<lparr>photoDocs := []\<rparr>)
   \<and> getAllPhotos (Some e) b = getAllPhotos None (b\<lparr>photoDocs := []\<rparr>)"
  by (simp add: getTripsData_def getFamilyMembers_def getPhotosForCountry_def getAllPhotos_def
        getDoc_tripsConfig_def getDocs_familyMembers_def getDocs_photosWhereCountryIso_def
        getDocs_photos_def js_sort_def)

lemma set_js_sort: "set (js_sort cmp xs) = set xs"
  using mset_js_sort [of cmp xs] by (metis set_mset_mset)

lemma getPhotosForCountry_set:
  "set (getPhotosForCountry None c b) = {p. \<exists>k. (k, p) \<in> set (photoDocs b) \<and> sp_countryIso p = c}"
  by (force simp: getPhotosForCountry_def getDocs_photosWhereCountryIso_def set_js_sort)

lemma deletePhoto_success:
  assumes "deletePhoto fs ff photoId b = (Inr (), b')"
  shows "fs = None" and "ff = None"
    and "b' = b\<lparr>blobs := filter (\<lambda>q. q \<noteq> ''photos/'' @ photoId) (blobs b),
                photoDocs := filter (\<lambda>d. fst d \<noteq> photoId) (photoDocs b)\<rparr>"
  using assms
  by (auto simp: deletePhoto_def deleteObject_def deleteDoc_photo_def
           split: option.splits if_splits sum.splits)

text \<open>
  Claim C8. \<open>deletePhoto\<close> deletes the blob \<open>photos/{photoId}\<close> first and the metadata
  document second. When the blob deletion throws, the error reaches the caller and the
  backend is as before, the document included. When the document deletion throws, the
  error reaches the caller and the blob stays deleted: nothing is put back. When
  \<open>deletePhoto\<close> returns normally, both calls went through, the blob and the document are
  gone, and \<open>getPhotosForCountry\<close> yields, for every country, exactly the photos of the
  remaining documents; where every document is stored under its photo's id, as
  \<open>savePhoto\<close> stores it, no photo with the deleted id is among them.
\<close>

theorem deletePhoto_blob_then_document:
  "(deleteObject fs (''photos/'' @ photoId) b = Inl e
      \<longrightarrow> deletePhoto fs ff photoId b = (Inl e, b))
   \<and> (deleteObject fs (''photos/'' @ photoId) b = Inr b1 \<and> deleteDoc_photo ff photoId b1 = Inl e
      \<longrightarrow> deletePhoto fs ff photoId b = (Inl e, b1)
          \<and> ''photos/'' @ photoId \<notin> set (blobs b1)
          \<and> photoDocs b1 = photoDocs b)
   \<and> (deletePhoto fs ff photoId b = (Inr (), b')
      \<longrightarrow> fs = None \<and> ff = None
          \<and> ''photos/'' @ photoId \<notin> set (blobs b')
          \<and> photoId \<notin> fst ` set (photoDocs b')
          \<and> (\<forall>c. set (getPhotosForCountry None c b')
                   = {p. \<exists>k. (k, p) \<in> set (photoDocs b) \<and> k \<noteq> photoId \<and> sp_countryIso p = c})
          \<and> ((\<forall>d\<in>set (photoDocs b). sp_id (snd d) = fst d)
               \<longrightarrow> (\<forall>c. \<forall>p\<in>set (getPhotosForCountry None c b'). sp_id p \<noteq> photoId)))"
proof (intro conjI impI)
  assume "deleteObject fs (''photos/'' @ photoId) b = Inl e"
  then show "deletePhoto fs ff photoId b = (Inl e, b)"
    by (simp add: deletePhoto_def)
next
  assume a: "deleteObject fs (''photos/'' @ photoId) b = Inr b1 \<and> deleteDoc_photo ff photoId b1 = Inl e"
  then show "deletePhoto fs ff photoId b = (Inl e, b1)"
    by (simp add: deletePhoto_def)
  from a show "''photos/'' @ photoId \<notin> set (blobs b1)"
    by (auto simp: deleteObject_def split: option.splits if_splits)
  from a show "photoDocs b1 = photoDocs b"
    by (auto simp: deleteObject_def split: option.splits if_splits)
next
  assume ok: "deletePhoto fs ff photoId b = (Inr (), b')"
  note b' = deletePhoto_success(3) [OF ok]
  from ok show "fs = None" by (rule deletePhoto_success)
  from ok show "ff = None" by (rule deletePhoto_success)
  show "''photos/'' @ photoId \<notin> set (blobs b')"
    by (simp add: b')
  show "photoId \<notin> fst ` set (photoDocs b')"
    by (auto simp: b')
  show rest: "\<forall>c. set (getPhotosForCountry None c b')
                   = {p. \<exists>k. (k, p) \<in> set (photoDocs b) \<and> k \<noteq> photoId \<and> sp_countryIso p = c}"
    by (auto simp: getPhotosForCountry_set b')
  assume "\<forall>d\<in>set (photoDocs b). sp_id (snd d) = fst d"
  with rest show "\<forall>c. \<forall>p\<in>set (getPhotosForCountry None c b'). sp_id p \<noteq> photoId"
    by fastforce
qed

theorem deletePhoto_blob_then_document_witness:
  "deleteObject (Some (RemoteError ''denied'')) (''photos/'' @ ''FR-1'') exampleBackend
     = Inl (RemoteError ''denied'')
   \<and> deletePhoto (Some (RemoteError ''denied'')) None ''FR-1'' exampleBackend
     = (Inl (RemoteError ''denied''), exampleBackend)
   \<and> deleteObject None (''photos/'' @ ''FR-1'') exampleBackend
     = Inr (exampleBackend\<lparr>blobs := [''photos/FR-2'']\<rparr>)
   \<and> deleteDoc_photo (Some (RemoteError ''unavailable'')) ''FR-1'' (exampleBackend\<lparr>blobs := [''photos/FR-2'']\<rparr>)
     = Inl (RemoteError ''unavailable'')
   \<and> deletePhoto None (Some (RemoteError ''unavailable'')) ''FR-1'' exampleBackend
     = (Inl (RemoteError ''unavailable''), exampleBackend\<lparr>blobs := [''photos/FR-2'']\<rparr>)
   \<and> photoDocs (exampleBackend\<lparr>blobs := [''photos/FR-2'']\<rparr>) = photoDocs exampleBackend
   \<and> deletePhoto None None ''FR-1'' exampleBackend
     = (Inr (), exampleBackend\<lparr>blobs := [''photos/FR-2''], photoDocs := [(''FR-2'', photoB)]\<rparr>)
   \<and> map (\<lambda>d. sp_id (snd d)) (photoDocs exampleBackend) = map fst (photoDocs exampleBackend)
   \<and> ''FR-1'' \<notin> sp_id ` set (getPhotosForCountry None ''FR''
                   (exampleBackend\<lparr>blobs := [''photos/FR-2''], photoDocs := [(''FR-2'', photoB)]\<rparr>))"
proof -
  let ?denied = "RemoteError ''denied''" and ?unavailable = "RemoteError ''unavailable''"
  let ?b1 = "exampleBackend\<lparr>blobs := [''photos/FR-2'']\<rparr>"
  let ?b2 = "exampleBackend\<lparr>blobs := [''photos/FR-2''], photoDocs := [(''FR-2'', photoB)]\<rparr>"
  have s1: "deleteObject (Some ?denied) (''photos/'' @ ''FR-1'') exampleBackend = Inl ?denied"
    by (simp add: deleteObject_def)
  have s2: "deleteObject None (''photos/'' @ ''FR-1'') exampleBackend = Inr ?b1"
    by (simp add: deleteObject_def exampleBackend_def)
  have s3: "deleteDoc_photo (Some ?unavailable) ''FR-1'' ?b1 = Inl ?unavailable"
    by (simp add: deleteDoc_photo_def)
  have s4: "deletePhoto None None ''FR-1'' exampleBackend = (Inr (), ?b2)"
    by (simp add: deletePhoto_def deleteObject_def deleteDoc_photo_def exampleBackend_def)
  have inv: "\<forall>d\<in>set (photoDocs exampleBackend). sp_id (snd d) = fst d"
    by (simp add: exampleBackend_def photoA_def photoB_def)
  from deletePhoto_blob_then_document
         [where fs = "Some ?denied" and ff = None and photoId = "''FR-1''" and b = exampleBackend
            and e = ?denied] s1
  have r1: "deletePhoto (Some ?denied) None ''FR-1'' exampleBackend = (Inl ?denied, exampleBackend)"
    by blast
  from deletePhoto_blob_then_document
         [where fs = None and ff = "Some ?unavailable" and photoId = "''FR-1''"
            and b = exampleBackend and ?b1.0 = ?b1 and e = ?unavailable] s2 s3
  have r2: "deletePhoto None (Some ?unavailable) ''FR-1'' exampleBackend = (Inl ?unavailable, ?b1)
            \<and> photoDocs ?b1 = photoDocs exampleBackend"
    by blast
  from deletePhoto_blob_then_document
         [where fs = None and ff = None and photoId = "''FR-1''" and b = exampleBackend
            and b' = ?b2] s4 inv
  have "\<forall>p\<in>set (getPhotosForCountry None ''FR'' ?b2). sp_id p \<noteq> ''FR-1''"
    by blast
  then have r3: "''FR-1'' \<notin> sp_id ` set (getPhotosForCountry None ''FR'' ?b2)"
    by auto
  have ids: "map (\<lambda>d. sp_id (snd d)) (photoDocs exampleBackend) = map fst (photoDocs exampleBackend)"
    by (simp add: exampleBackend_def photoA_def photoB_def)
  from s1 s2 s3 s4 ids r1 r2 r3 show ?thesis
    by blast
qed

lemma updateDoc_photo_keys:
  "fst ` set (map (\<lambda>d. if fst d = k then (fst d, upd (snd d)) else d) docs) = fst ` set docs"
  by (induction docs) auto

lemma updateDoc_photo_present:
  assumes "k \<in> fst ` set (photoDocs b)"
  shows "updateDoc_photo None k upd b
           = Inr (b\<lparr>photoDocs := map (\<lambda>d. if fst d = k then (fst d, upd (snd d)) else d) (photoDocs b)\<rparr>)"
  using assms by (simp add: updateDoc_photo_def)

lemma find_map_same_key:
  assumes "\<And>x. P (f x) = P x"
  shows "find P (map f xs) = map_option f (find P xs)"
  using assms by (induction xs) auto

lemma activePhoto_map:
  assumes "\<And>p. sp_id (g p) = sp_id p"
  shows "activePhoto (ui\<lparr>panel_photos := map g (panel_photos ui)\<rparr>) = map_option g (activePhoto ui)"
proof (cases "panel_activePhotoId ui")
  case None
  then show ?thesis
    by (simp add: activePhoto_def)
next
  case (Some i)
  have "find (\<lambda>p. sp_id p = i) (map g (panel_photos ui))
          = map_option g (find (\<lambda>p. sp_id p = i) (panel_photos ui))"
    by (rule find_map_same_key) (simp add: assms)
  with Some show ?thesis
    by (simp add: activePhoto_def)
qed

lemma filter_other_ids_map:
  "filter (\<lambda>p. sp_id p \<noteq> k) (map (\<lambda>p. if sp_id p = k then g p else p) ps)
     = filter (\<lambda>p. sp_id p \<noteq> k) ps" if "\<And>p. sp_id (g p) = sp_id p"
  using that by (induction ps) auto

text \<open>What \<open>removePerson\<close> leaves when both writes go through.\<close>

lemma removePerson_success:
  fixes m :: string
  assumes act: "activePhoto ui = Some ap"
    and doc: "sp_id ap \<in> fst ` set (photoDocs b)"
  defines "nextTags \<equiv> filter (\<lambda>t. ft_memberId t \<noteq> m) (sp_faceTags ap)"
    and "dfs \<equiv> map (clearAssignment m) (case sp_detectedFaces ap of None \<Rightarrow> [] | Some faces \<Rightarrow> faces)"
  shows "removePerson None None m (ui, b) =
      (Inr (),
       ui\<lparr>panel_photos :=
            map (\<lambda>p. if sp_id p = sp_id ap
                      then p\<lparr>sp_faceTags := nextTags,
                             sp_detectedFaces := (if dfs = [] then sp_detectedFaces p else Some dfs)\<rparr>
                      else p)
                (panel_photos ui)\<rparr>,
       b\<lparr>photoDocs :=
            map (\<lambda>d. if fst d = sp_id ap
                      then (fst d, (snd d)\<lparr>sp_faceTags := nextTags,
                                          sp_detectedFaces := (if dfs = [] then sp_detectedFaces (snd d)
                                                               else Some dfs)\<rparr>)
                      else d)
                (photoDocs b)\<rparr>)"
proof -
  let ?k = "sp_id ap"
  let ?b1 = "b\<lparr>photoDocs := map (\<lambda>d. if fst d = ?k then (fst d, (snd d)\<lparr>sp_faceTags := nextTags\<rparr>) else d)
                                   (photoDocs b)\<rparr>"
  let ?ui1 = "ui\<lparr>panel_photos := map (\<lambda>p. if sp_id p = ?k then p\<lparr>sp_faceTags := nextTags\<rparr> else p)
                                       (panel_photos ui)\<rparr>"
  have h1: "handleUpdateFaceTags None ?k nextTags (ui, b) = (?ui1, ?b1)"
    by (simp add: handleUpdateFaceTags_def updatePhotoFaceTags_def updateDoc_photo_present [OF doc])
  have doc1: "?k \<in> fst ` set (photoDocs ?b1)"
    using doc by (simp add: updateDoc_photo_keys del: set_map)
  have h2: "updatePhotoDetectedFaces None ?k dfs ?b1
              = Inr (?b1\<lparr>photoDocs :=
                       map (\<lambda>d. if fst d = ?k then (fst d, (snd d)\<lparr>sp_detectedFaces := Some dfs\<rparr>) else d)
                           (photoDocs ?b1)\<rparr>)"
    by (simp only: updatePhotoDetectedFaces_def updateDoc_photo_present [OF doc1] sum.case)
  show ?thesis
  proof (cases "dfs = []")
    case True
    have "removePerson None None m (ui, b) = (Inr (), ?ui1, ?b1)"
      using act True h1 unfolding removePerson_def nextTags_def dfs_def by (simp add: Let_def)
    with True show ?thesis
      by simp
  next
    case False
    have "removePerson None None m (ui, b) =
            (Inr (),
             ?ui1\<lparr>panel_photos :=
                    map (\<lambda>p. if sp_id p = ?k then p\<lparr>sp_detectedFaces := Some dfs\<rparr> else p)
                        (panel_photos ?ui1)\<rparr>,
             ?b1\<lparr>photoDocs :=
                    map (\<lambda>d. if fst d = ?k then (fst d, (snd d)\<lparr>sp_detectedFaces := Some dfs\<rparr>) else d)
                        (photoDocs ?b1)\<rparr>)"
      using act False h1 h2 unfolding removePerson_def nextTags_def dfs_def by (simp add: Let_def)
    with False show ?thesis
      by (simp add: comp_def if_distrib cong: if_cong)
  qed
qed

text \<open>
  Claim C7. With a photo open that is stored in the backend, and both writes going
  through, \<open>removePerson m\<close> leaves the open photo with the face tags of \<open>m\<close> removed and
  the other tags as they were, in their order, and with every detected face that was
  assigned to \<open>m\<close> stripped of \<open>assignedMemberId\<close> and \<open>assignedMemberName\<close>, the other
  faces and every other field of the photo as they were. The other photos of the panel
  are untouched, and the stored document of the photo receives the same tags and faces.
\<close>

theorem removePerson_clears_tag_and_assignment:
  fixes m :: string
  assumes "activePhoto ui = Some ap"
    and "sp_id ap \<in> fst ` set (photoDocs b)"
  shows "\<exists>ui' b' ap'.
      removePerson None None m (ui, b) = (Inr (), ui', b')
    \<and> activePhoto ui' = Some ap'
    \<and> sp_faceTags ap' = filter (\<lambda>t. ft_memberId t \<noteq> m) (sp_faceTags ap)
    \<and> (\<forall>t\<in>set (sp_faceTags ap'). ft_memberId t \<noteq> m)
    \<and> sp_detectedFaces ap'
        = map_option
            (map (\<lambda>df. if dfd_assignedMemberId df = Some m
                        then df\<lparr>dfd_assignedMemberId := None, dfd_assignedMemberName := None\<rparr>
                        else df))
            (sp_detectedFaces ap)
    \<and> ap'\<lparr>sp_faceTags := sp_faceTags ap, sp_detectedFaces := sp_detectedFaces ap\<rparr> = ap
    \<and> filter (\<lambda>p. sp_id p \<noteq> sp_id ap) (panel_photos ui')
        = filter (\<lambda>p. sp_id p \<noteq> sp_id ap) (panel_photos ui)
    \<and> photoDocs b'
        = map (\<lambda>d. if fst d = sp_id ap
                    then (fst d, (snd d)\<lparr>sp_faceTags := sp_faceTags ap',
                                        sp_detectedFaces :=
                                          (if sp_detectedFaces ap = None \<or> sp_detectedFaces ap = Some []
                                           then sp_detectedFaces (snd d)
                                           else sp_detectedFaces ap')\<rparr>)
                    else d)
              (photoDocs b)"
proof -
  define nextTags where "nextTags = filter (\<lambda>t. ft_memberId t \<noteq> m) (sp_faceTags ap)"
  define dfs where
    "dfs = map (clearAssignment m) (case sp_detectedFaces ap of None \<Rightarrow> [] | Some faces \<Rightarrow> faces)"
  define g :: "StoredPhoto \<Rightarrow> StoredPhoto" where
    "g = (\<lambda>p. p\<lparr>sp_faceTags := nextTags,
                 sp_detectedFaces := (if dfs = [] then sp_detectedFaces p else Some dfs)\<rparr>)"
  define ui' where
    "ui' = ui\<lparr>panel_photos := map (\<lambda>p. if sp_id p = sp_id ap then g p else p) (panel_photos ui)\<rparr>"
  define b' where
    "b' = b\<lparr>photoDocs := map (\<lambda>d. if fst d = sp_id ap then (fst d, g (snd d)) else d) (photoDocs b)\<rparr>"
  have run: "removePerson None None m (ui, b) = (Inr (), ui', b')"
    using removePerson_success [OF assms, of m]
    by (simp add: ui'_def b'_def g_def nextTags_def dfs_def)
  have clear: "clearAssignment m
                 = (\<lambda>df. if dfd_assignedMemberId df = Some m
                          then df\<lparr>dfd_assignedMemberId := None, dfd_assignedMemberName := None\<rparr>
                          else df)"
    by (auto simp: clearAssignment_def fun_eq_iff)
  have faces: "(if dfs = [] then sp_detectedFaces ap else Some dfs)
                 = map_option (map (clearAssignment m)) (sp_detectedFaces ap)"
    by (cases "sp_detectedFaces ap") (auto simp: dfs_def)
  have empty: "dfs = [] \<longleftrightarrow> sp_detectedFaces ap = None \<or> sp_detectedFaces ap = Some []"
    by (cases "sp_detectedFaces ap") (auto simp: dfs_def)
  have "activePhoto ui' = map_option (\<lambda>p. if sp_id p = sp_id ap then g p else p) (activePhoto ui)"
    unfolding ui'_def by (rule activePhoto_map) (simp add: g_def)
  then have act: "activePhoto ui' = Some (g ap)"
    using assms(1) by simp
  have tags: "sp_faceTags (g ap) = filter (\<lambda>t. ft_memberId t \<noteq> m) (sp_faceTags ap)"
    by (simp add: g_def nextTags_def)
  have none: "\<forall>t\<in>set (sp_faceTags (g ap)). ft_memberId t \<noteq> m"
    by (simp add: tags)
  have det: "sp_detectedFaces (g ap)
               = map_option
                   (map (\<lambda>df. if dfd_assignedMemberId df = Some m
                               then df\<lparr>dfd_assignedMemberId := None, dfd_assignedMemberName := None\<rparr>
                               else df))
                   (sp_detectedFaces ap)"
    using faces by (simp add: g_def clear)
  have frame: "(g ap)\<lparr>sp_faceTags := sp_faceTags ap, sp_detectedFaces := sp_detectedFaces ap\<rparr> = ap"
    by (simp add: g_def)
  have others: "filter (\<lambda>p. sp_id p \<noteq> sp_id ap) (panel_photos ui')
                  = filter (\<lambda>p. sp_id p \<noteq> sp_id ap) (panel_photos ui)"
    unfolding ui'_def by (simp add: filter_other_ids_map g_def)
  have docs: "photoDocs b'
        = map (\<lambda>d. if fst d = sp_id ap
                    then (fst d, (snd d)\<lparr>sp_faceTags := sp_faceTags (g ap),
                                        sp_detectedFaces :=
                                          (if sp_detectedFaces ap = None \<or> sp_detectedFaces ap = Some []
                                           then sp_detectedFaces (snd d)
                                           else sp_detectedFaces (g ap))\<rparr>)
                    else d)
              (photoDocs b)"
    using empty by (auto simp: b'_def g_def)
  from run act tags none det frame others docs show ?thesis
    by blast
qed

theorem removePerson_clears_tag_and_assignment_witness:
  "activePhoto examplePanel = Some photoA
   \<and> sp_id photoA \<in> fst ` set (photoDocs exampleBackend)
   \<and> (\<exists>ui' b' ap'.
        removePerson None None ''family-1'' (examplePanel, exampleBackend) = (Inr (), ui', b')
      \<and> activePhoto ui' = Some ap'
      \<and> sp_faceTags ap' = [exampleTag ''family-2'']
      \<and> sp_detectedFaces ap'
          = Some [(exampleFace ''f1'' (Some ''family-1''))
                    \<lparr>dfd_assignedMemberId := None, dfd_assignedMemberName := None\<rparr>,
                  exampleFace ''f2'' (Some ''family-2''), exampleFace ''f3'' None]
      \<and> filter (\<lambda>p. sp_id p \<noteq> ''FR-1'') (panel_photos ui') = [photoB]
      \<and> photoDocs b' = [(''FR-1'', ap'), (''FR-2'', photoB)])"
proof -
  have act: "activePhoto examplePanel = Some photoA"
    by (simp add: activePhoto_def examplePanel_def photoA_def photoB_def)
  have doc: "sp_id photoA \<in> fst ` set (photoDocs exampleBackend)"
    by (simp add: exampleBackend_def photoA_def)
  from removePerson_clears_tag_and_assignment [OF act doc, of "''family-1''"]
  obtain ui' b' ap' where
    run: "removePerson None None ''family-1'' (examplePanel, exampleBackend) = (Inr (), ui', b')"
    and ap': "activePhoto ui' = Some ap'"
    and tags: "sp_faceTags ap' = filter (\<lambda>t. ft_memberId t \<noteq> ''family-1'') (sp_faceTags photoA)"
    and det: "sp_detectedFaces ap'
        = map_option
            (map (\<lambda>df. if dfd_assignedMemberId df = Some ''family-1''
                        then df\<lparr>dfd_assignedMemberId := None, dfd_assignedMemberName := None\<rparr>
                        else df))
            (sp_detectedFaces photoA)"
    and frame: "ap'\<lparr>sp_faceTags := sp_faceTags photoA, sp_detectedFaces := sp_detectedFaces photoA\<rparr> = photoA"
    and others: "filter (\<lambda>p. sp_id p \<noteq> sp_id photoA) (panel_photos ui')
        = filter (\<lambda>p. sp_id p \<noteq> sp_id photoA) (panel_photos examplePanel)"
    and docs: "photoDocs b'
        = map (\<lambda>d. if fst d = sp_id photoA
                    then (fst d, (snd d)\<lparr>sp_faceTags := sp_faceTags ap',
                                        sp_detectedFaces :=
                                          (if sp_detectedFaces photoA = None \<or> sp_detectedFaces photoA = Some []
                                           then sp_detectedFaces (snd d)
                                           else sp_detectedFaces ap')\<rparr>)
                    else d)
              (photoDocs exampleBackend)"
    by blast
  have t: "sp_faceTags ap' = [exampleTag ''family-2'']"
    using tags by (simp add: photoA_def exampleTag_def)
  have d: "sp_detectedFaces ap'
          = Some [(exampleFace ''f1'' (Some ''family-1''))
                    \<lparr>dfd_assignedMemberId := None, dfd_assignedMemberName := None\<rparr>,
                  exampleFace ''f2'' (Some ''family-2''), exampleFace ''f3'' None]"
    using det by (simp add: photoA_def exampleFace_def)
  have eq: "ap' = photoA\<lparr>sp_faceTags := sp_faceTags ap', sp_detectedFaces := sp_detectedFaces ap'\<rparr>"
    using frame by (metis StoredPhoto.surjective StoredPhoto.update_convs(6,7) StoredPhoto.select_convs)
  have ds: "photoDocs b' = [(''FR-1'', ap'), (''FR-2'', photoB)]"
    using docs eq d by (simp add: exampleBackend_def photoA_def)
  have os: "filter (\<lambda>p. sp_id p \<noteq> ''FR-1'') (panel_photos ui') = [photoB]"
    using others by (simp add: examplePanel_def photoA_def photoB_def)
  from act doc run ap' t d os ds show ?thesis
    by blast
qed

lemma groupByMember_foldl:
  "(case foldl (\<lambda>byMember t.
                  byMember(fst t \<mapsto> (case byMember (fst t) of None \<Rightarrow> [] | Some ds \<Rightarrow> ds) @ [snd t]))
               acc training k of
      None \<Rightarrow> [] | Some ds \<Rightarrow> ds)
   = (case acc k of None \<Rightarrow> [] | Some ds \<Rightarrow> ds) @ map snd (filter (\<lambda>t. fst t = k) training)"
  by (induction training arbitrary: acc) auto

lemma groupByMember_lookup:
  "(case groupByMember training k of None \<Rightarrow> [] | Some ds \<Rightarrow> ds)
     = map snd (filter (\<lambda>t. fst t = k) training)"
  unfolding groupByMember_def by (simp add: groupByMember_foldl)

lemma those_map_total:
  "\<forall>s\<in>set ss. f s \<noteq> None \<Longrightarrow> \<exists>ds. those (map f ss) = Some ds"
  by (induction ss) auto

lemma those_map_filter:
  "those (map f ss) = Some ds \<Longrightarrow> List.map_filter f ss = ds"
  by (induction ss arbitrary: ds) (auto simp: List.map_filter_simps split: option.splits)

lemma getMemberDescriptors_total:
  assumes "\<forall>s\<in>set (fm_descriptorStrings m). parse s \<noteq> None"
  shows "\<exists>own. getMemberDescriptors parse m = Inr own"
proof -
  from those_map_total [OF assms] obtain ds where "those (map parse (fm_descriptorStrings m)) = Some ds"
    by blast
  then show ?thesis
    by (auto simp: getMemberDescriptors_def split: option.splits list.splits)
qed

text \<open>Where \<open>getMemberDescriptors\<close> returns, it returns the enrolled descriptors.\<close>

lemma getMemberDescriptors_spec:
  assumes "getMemberDescriptors parse m = Inr own"
  shows "own = spec_ownDescriptors parse m"
proof (cases "fm_descriptorStrings m = []")
  case True
  with assms show ?thesis
    by (auto simp: getMemberDescriptors_def spec_ownDescriptors_def split: option.splits list.splits)
next
  case False
  with assms obtain ds where "those (map parse (fm_descriptorStrings m)) = Some ds" and "own = ds"
    by (auto simp: getMemberDescriptors_def split: option.splits)
  with False show ?thesis
    by (simp add: spec_ownDescriptors_def those_map_filter)
qed

lemma labelMembers_total:
  assumes "\<forall>m\<in>set ms. \<exists>own. getMemberDescriptors parse m = Inr own"
  shows "\<exists>lds. labelMembers parse byMember ms = Inr lds"
  using assms
proof (induction ms)
  case Nil
  then show ?case by simp
next
  case (Cons m ms)
  then obtain own lds where "getMemberDescriptors parse m = Inr own"
    and "labelMembers parse byMember ms = Inr lds"
    by auto
  then show ?case
    by (simp add: Let_def)
qed

lemma labelMembers_result:
  assumes "labelMembers parse byMember ms = Inr lds"
  shows "lds = map (\<lambda>m. (fm_id m,
                         (let fromPhotos = (case byMember (fm_id m) of None \<Rightarrow> [] | Some ds \<Rightarrow> ds)
                          in if fromPhotos \<noteq> [] then fromPhotos else spec_ownDescriptors parse m)))
                  ms"
  using assms
proof (induction ms arbitrary: lds)
  case Nil
  then show ?case by simp
next
  case (Cons m ms)
  from Cons.prems obtain own rest where own: "getMemberDescriptors parse m = Inr own"
    and rest: "labelMembers parse byMember ms = Inr rest"
    by (auto simp: Let_def split: sum.splits)
  from Cons.prems own rest
  have "lds = (fm_id m, (let fromPhotos = (case byMember (fm_id m) of None \<Rightarrow> [] | Some ds \<Rightarrow> ds)
                         in if fromPhotos \<noteq> [] then fromPhotos else own)) # rest"
    by (auto simp: Let_def)
  with Cons.IH [OF rest] getMemberDescriptors_spec [OF own] show ?case
    by (simp add: Let_def)
qed

lemma trainingOfFace_member:
  "(k, d) \<in> set (trainingOfFace parse f) \<longleftrightarrow>
     dfd_assignedMemberId f = Some k \<and> k \<noteq> [] \<and> dfd_descriptorString f \<noteq> []
     \<and> parse (dfd_descriptorString f) = Some d"
  by (cases "dfd_assignedMemberId f"; cases "parse (dfd_descriptorString f)")
     (auto simp: trainingOfFace_def)

lemma training_member:
  "(k, d) \<in> set (getTrainingDescriptorsFromTaggedPhotos parse fault b) \<longleftrightarrow>
     (\<exists>p\<in>set (getAllPhotos fault b).
        \<exists>f\<in>set (case sp_detectedFaces p of None \<Rightarrow> [] | Some faces \<Rightarrow> faces).
          dfd_assignedMemberId f = Some k \<and> k \<noteq> [] \<and> dfd_descriptorString f \<noteq> []
          \<and> parse (dfd_descriptorString f) = Some d)"
  unfolding getTrainingDescriptorsFromTaggedPhotos_def
  by (simp add: trainingOfFace_member)

text \<open>
  The training entries of one id are the descriptors from tagged photos of the
  specification, for an id that is not empty and a parser that rejects the empty string
  (as \<open>JSON.parse\<close> does): the two guards of the loop skip nothing else.
\<close>

lemma trainingOfFace_spec:
  assumes "k \<noteq> []" and "parse [] = None"
  shows "map snd (filter (\<lambda>t. fst t = k) (trainingOfFace parse f))
           = (if dfd_assignedMemberId f = Some k
              then (case parse (dfd_descriptorString f) of Some d \<Rightarrow> [d] | None \<Rightarrow> [])
              else [])"
  using assms
  by (cases "dfd_assignedMemberId f"; cases "parse (dfd_descriptorString f)")
     (auto simp: trainingOfFace_def)

lemma training_spec:
  assumes "fm_id m \<noteq> []" and "parse [] = None"
  shows "map snd (filter (\<lambda>t. fst t = fm_id m) (getTrainingDescriptorsFromTaggedPhotos parse fault b))
           = spec_taggedDescriptors parse (getAllPhotos fault b) m"
  unfolding getTrainingDescriptorsFromTaggedPhotos_def spec_taggedDescriptors_def
  by (simp add: filter_concat map_concat comp_def
        trainingOfFace_spec [where parse = parse and k = "fm_id m", OF assms])

text \<open>
  What \<open>matchFaces\<close> builds for the matcher when every enrolled descriptor string of the
  members parses: in the order of the members, one labeled set per member whose reference
  set is not empty, the set being the one the specification describes.
\<close>

lemma labeledDescriptors_spec:
  assumes ids: "\<forall>m\<in>set members. fm_id m \<noteq> []"
    and strs: "\<forall>m\<in>set members. \<forall>s\<in>set (fm_descriptorStrings m). parse s \<noteq> None"
    and empty: "parse [] = None"
  shows "labeledDescriptors parse members (getTrainingDescriptorsFromTaggedPhotos parse fault b)
           = Inr (map (\<lambda>m. (fm_id m, spec_referenceSet parse (getAllPhotos fault b) m))
                      (filter (\<lambda>m. spec_referenceSet parse (getAllPhotos fault b) m \<noteq> []) members))"
proof -
  let ?training = "getTrainingDescriptorsFromTaggedPhotos parse fault b"
  from strs have "\<forall>m\<in>set members. \<exists>own. getMemberDescriptors parse m = Inr own"
    by (simp add: getMemberDescriptors_total)
  from labelMembers_total [OF this]
  obtain lds where lds: "labelMembers parse (groupByMember ?training) members = Inr lds"
    by blast
  have "lds = map (\<lambda>m. (fm_id m,
                         (let fromPhotos = (case groupByMember ?training (fm_id m) of
                                              None \<Rightarrow> [] | Some ds \<Rightarrow> ds)
                          in if fromPhotos \<noteq> [] then fromPhotos else spec_ownDescriptors parse m)))
                  members"
    by (rule labelMembers_result [OF lds])
  also have "\<dots> = map (\<lambda>m. (fm_id m, spec_referenceSet parse (getAllPhotos fault b) m)) members"
  proof (rule map_cong [OF refl])
    fix m assume "m \<in> set members"
    with ids have "fm_id m \<noteq> []"
      by simp
    from training_spec [where parse = parse and m = m and fault = fault and b = b, OF this empty]
    show "(fm_id m,
            (let fromPhotos = (case groupByMember ?training (fm_id m) of None \<Rightarrow> [] | Some ds \<Rightarrow> ds)
             in if fromPhotos \<noteq> [] then fromPhotos else spec_ownDescriptors parse m))
          = (fm_id m, spec_referenceSet parse (getAllPhotos fault b) m)"
      by (simp add: groupByMember_lookup spec_referenceSet_def Let_def)
  qed
  finally have "lds = map (\<lambda>m. (fm_id m, spec_referenceSet parse (getAllPhotos fault b) m)) members" .
  with lds show ?thesis
    by (simp add: labeledDescriptors_def filter_map comp_def)
qed

lemma matchFaces_reference_sets:
  assumes ids: "\<forall>m\<in>set (getFamilyMembers localeCompare faultMembers b). fm_id m \<noteq> []"
    and strs: "\<forall>m\<in>set (getFamilyMembers localeCompare faultMembers b).
                 \<forall>s\<in>set (fm_descriptorStrings m). parse s \<noteq> None"
    and empty: "parse [] = None"
  shows "matchFaces localeCompare parse faultMembers faultPhotos b faces =
     (let familyMembers = getFamilyMembers localeCompare faultMembers b;
          labeled = map (\<lambda>m. (fm_id m, spec_referenceSet parse (getAllPhotos faultPhotos b) m))
                        (filter (\<lambda>m. spec_referenceSet parse (getAllPhotos faultPhotos b) m \<noteq> [])
                                familyMembers)
      in if labeled = [] then Inr faces
         else Inr (map (\<lambda>face.
                     let match = findBestMatch labeled MATCH_THRESHOLD (df_descriptor face)
                     in if fst match \<noteq> ''unknown''
                        then face\<lparr>df_matchedMember := find (\<lambda>m. fm_id m = fst match) familyMembers,
                                  df_confidence := Some (1 - snd match)\<rparr>
                        else face)
                   faces))"
  unfolding matchFaces_def Let_def
    labeledDescriptors_spec [where parse = parse and fault = faultPhotos and b = b, OF ids strs empty]
  by simp

lemma brokenBackend_reads:
  "getFamilyMembers exampleCompare None brokenBackend = [brokenMember]"
  "getAllPhotos None brokenBackend = [photoA]"
  by (simp_all add: getFamilyMembers_def getDocs_familyMembers_def getAllPhotos_def
        getDocs_photos_def brokenBackend_def js_sort_def)

text \<open>
  Claim C2. For every family member with at least one descriptor from tagged photos, the
  reference set handed to the matcher should be exactly those descriptors. \<open>matchFaces\<close>
  decodes the enrolled descriptors of every member before it chooses, and that decoding
  throws on a string that is not JSON. The member \<open>family-1\<close> is tagged on a stored photo
  with the descriptor \<open>[0.5, 0.25]\<close> and carries the enrolled string \<open>not json\<close>: the
  reference set of the claim is that one tagged descriptor, and \<open>matchFaces\<close> throws
  instead of handing it over.
\<close>

theorem matchFaces_throws_despite_tagged_descriptors:
  "getFamilyMembers exampleCompare None brokenBackend = [brokenMember]
   \<and> fm_descriptorStrings brokenMember = [''not json'']
   \<and> exampleParse ''not json'' = None
   \<and> getTrainingDescriptorsFromTaggedPhotos exampleParse None brokenBackend
       = [(''family-1'', [1 / 2, 1 / 4]), (''family-2'', [1 / 2, 1 / 4])]
   \<and> spec_referenceSet exampleParse (getAllPhotos None brokenBackend) brokenMember = [[1 / 2, 1 / 4]]
   \<and> matchFaces exampleCompare exampleParse None None brokenBackend [exampleQuery]
       = Inl JsonSyntaxError"
proof -
  have t: "getTrainingDescriptorsFromTaggedPhotos exampleParse None brokenBackend
             = [(''family-1'', [1 / 2, 1 / 4]), (''family-2'', [1 / 2, 1 / 4])]"
    by (simp add: getTrainingDescriptorsFromTaggedPhotos_def brokenBackend_reads photoA_def
          trainingOfFace_def exampleFace_def exampleParse_def)
  have r: "spec_referenceSet exampleParse (getAllPhotos None brokenBackend) brokenMember = [[1 / 2, 1 / 4]]"
    by (simp add: spec_referenceSet_def spec_taggedDescriptors_def brokenBackend_reads photoA_def
          exampleFace_def exampleParse_def brokenMember_def exampleMember_def)
  have d: "getMemberDescriptors exampleParse brokenMember = Inl JsonSyntaxError"
    by (simp add: getMemberDescriptors_def brokenMember_def exampleMember_def exampleParse_def)
  have "labeledDescriptors exampleParse [brokenMember]
          (getTrainingDescriptorsFromTaggedPhotos exampleParse None brokenBackend) = Inl JsonSyntaxError"
    by (simp add: labeledDescriptors_def d)
  then have m: "matchFaces exampleCompare exampleParse None None brokenBackend [exampleQuery]
                  = Inl JsonSyntaxError"
    by (simp add: matchFaces_def brokenBackend_reads)
  show ?thesis
    using t r m
    by (simp add: brokenBackend_reads brokenMember_def exampleMember_def exampleParse_def)
qed

lemma euclideanDistance_self: "euclideanDistance d d = 0"
proof -
  have "(\<Sum>p\<leftarrow>zip d d. (fst p - snd p)\<^sup>2) = (0 :: real)"
    by (induction d) simp_all
  then show ?thesis
    by (simp add: euclideanDistance_def)
qed

lemma findBestMatch_single_exact:
  "findBestMatch [(label, [d])] MATCH_THRESHOLD d = (label, 0)"
  by (simp add: findBestMatch_def bestLabel_def euclideanDistance_self MATCH_THRESHOLD_def)

lemma labeledDescriptors_single:
  assumes "getMemberDescriptors parse m = Inr [d]"
  shows "labeledDescriptors parse [m] [] = Inr [(fm_id m, [d])]"
  using assms by (simp add: labeledDescriptors_def groupByMember_def)

text \<open>
  Claim C1, as stated: one member whose only reference descriptor is the face's
  descriptor, no training descriptors; the face comes back matched to the member with
  confidence 1. \<open>matchFaces\<close> reads the label \<open>unknown\<close> as no match, so a member stored
  under that very id is never matched: the face comes back as it went in.
\<close>

theorem matchFaces_member_named_unknown_counterexample:
  "getFamilyMembers exampleCompare None (familyBackend ''unknown'')
     = [exampleMember ''unknown'' [''[0.5,0.25]''] None]
   \<and> getMemberDescriptors exampleParse (exampleMember ''unknown'' [''[0.5,0.25]''] None)
     = Inr [df_descriptor exampleQuery]
   \<and> getTrainingDescriptorsFromTaggedPhotos exampleParse None (familyBackend ''unknown'') = []
   \<and> matchFaces exampleCompare exampleParse None None (familyBackend ''unknown'') [exampleQuery]
     = Inr [exampleQuery]
   \<and> df_matchedMember exampleQuery = None"
  by (simp add: matchFaces_def getFamilyMembers_def getDocs_familyMembers_def familyBackend_def
        js_sort_def getTrainingDescriptorsFromTaggedPhotos_def getAllPhotos_def getDocs_photos_def
        photoB_def labeledDescriptors_def groupByMember_def getMemberDescriptors_def
        exampleMember_def exampleParse_def exampleQuery_def findBestMatch_single_exact)

text \<open>
  Claim C1, amended. When the family consists of one member whose id is not the reserved
  label \<open>unknown\<close> and whose only reference descriptor is \<open>d\<close>, and there are no training
  descriptors from tagged photos, \<open>matchFaces\<close> returns normally with one result per
  detected face, and every detected face whose descriptor is \<open>d\<close> comes back with
  \<open>matchedMember\<close> set to that member and \<open>confidence\<close> exactly 1 (distance 0, within the
  threshold 0.55), its other fields as they were.
\<close>

theorem matchFaces_exact_descriptor:
  assumes "getFamilyMembers localeCompare faultMembers b = [m]"
    and "getMemberDescriptors parse m = Inr [d]"
    and "getTrainingDescriptorsFromTaggedPhotos parse faultPhotos b = []"
    and "fm_id m \<noteq> ''unknown''"
  shows "\<exists>matched.
       matchFaces localeCompare parse faultMembers faultPhotos b faces = Inr matched
     \<and> length matched = length faces
     \<and> (\<forall>i < length faces. df_descriptor (faces ! i) = d
          \<longrightarrow> matched ! i = (faces ! i)\<lparr>df_matchedMember := Some m, df_confidence := Some 1\<rparr>)"
proof -
  let ?step = "\<lambda>face. let match = findBestMatch [(fm_id m, [d])] MATCH_THRESHOLD (df_descriptor face)
                       in if fst match \<noteq> ''unknown''
                          then face\<lparr>df_matchedMember := find (\<lambda>x. fm_id x = fst match) [m],
                                    df_confidence := Some (1 - snd match)\<rparr>
                          else face"
  have run: "matchFaces localeCompare parse faultMembers faultPhotos b faces = Inr (map ?step faces)"
    using assms(1,3) labeledDescriptors_single [OF assms(2)]
    by (simp add: matchFaces_def Let_def)
  have exact: "?step face = face\<lparr>df_matchedMember := Some m, df_confidence := Some 1\<rparr>"
    if "df_descriptor face = d" for face
    using that assms(4) by (simp add: findBestMatch_single_exact)
  have "map ?step faces ! i = (faces ! i)\<lparr>df_matchedMember := Some m, df_confidence := Some 1\<rparr>"
    if "i < length faces" "df_descriptor (faces ! i) = d" for i
    using that(1) by (simp only: nth_map exact [OF that(2)])
  then have "\<forall>i < length faces. df_descriptor (faces ! i) = d
          \<longrightarrow> map ?step faces ! i = (faces ! i)\<lparr>df_matchedMember := Some m, df_confidence := Some 1\<rparr>"
    by blast
  with run show ?thesis
    by (intro exI [of _ "map ?step faces"]) simp
qed

theorem matchFaces_exact_descriptor_witness:
  "getFamilyMembers exampleCompare None (familyBackend ''family-1'')
     = [exampleMember ''family-1'' [''[0.5,0.25]''] None]
   \<and> getMemberDescriptors exampleParse (exampleMember ''family-1'' [''[0.5,0.25]''] None)
     = Inr [df_descriptor exampleQuery]
   \<and> getTrainingDescriptorsFromTaggedPhotos exampleParse None (familyBackend ''family-1'') = []
   \<and> fm_id (exampleMember ''family-1'' [''[0.5,0.25]''] None) \<noteq> ''unknown''
   \<and> matchFaces exampleCompare exampleParse None None (familyBackend ''family-1'') [exampleQuery]
     = Inr [exampleQuery\<lparr>df_matchedMember := Some (exampleMember ''family-1'' [''[0.5,0.25]''] None),
                         df_confidence := Some 1\<rparr>]"
proof -
  let ?m = "exampleMember ''family-1'' [''[0.5,0.25]''] None"
  let ?b = "familyBackend ''family-1''"
  have one: "getFamilyMembers exampleCompare None ?b = [?m]"
    by (simp add: getFamilyMembers_def getDocs_familyMembers_def familyBackend_def js_sort_def)
  have own: "getMemberDescriptors exampleParse ?m = Inr [df_descriptor exampleQuery]"
    by (simp add: getMemberDescriptors_def exampleMember_def exampleParse_def exampleQuery_def)
  have none: "getTrainingDescriptorsFromTaggedPhotos exampleParse None ?b = []"
    by (simp add: getTrainingDescriptorsFromTaggedPhotos_def getAllPhotos_def getDocs_photos_def
          familyBackend_def photoB_def)
  have ident: "fm_id ?m \<noteq> ''unknown''"
    by (simp add: exampleMember_def)
  from matchFaces_exact_descriptor [OF one own none ident, of "[exampleQuery]"]
  obtain matched where
    run: "matchFaces exampleCompare exampleParse None None ?b [exampleQuery] = Inr matched"
    and len: "length matched = length [exampleQuery]"
    and hit: "\<forall>i < length [exampleQuery]. df_descriptor ([exampleQuery] ! i) = df_descriptor exampleQuery
          \<longrightarrow> matched ! i = ([exampleQuery] ! i)\<lparr>df_matchedMember := Some ?m, df_confidence := Some 1\<rparr>"
    by blast
  from hit have "matched ! 0 = exampleQuery\<lparr>df_matchedMember := Some ?m, df_confidence := Some 1\<rparr>"
    by simp
  with len have "matched = [exampleQuery\<lparr>df_matchedMember := Some ?m, df_confidence := Some 1\<rparr>]"
    by (cases matched) simp_all
  with run one own none ident show ?thesis
    by simp
qed

end
